theory Spec2Isabelle
  imports Main "HOL-Library.Sublist" "HOL-Library.Multiset"
begin

section \<open>serve-here: the static file server of dot-scripts\<close>

text \<open>
  A shallow embedding of \<^verbatim>\<open>node/serve-here.js\<close>: the request handler of
  \<^verbatim>\<open>createServer\<close>, \<^verbatim>\<open>generateDirectoryListing\<close> and the table
  \<^verbatim>\<open>MIME_TYPES\<close>, together with the parts of the JavaScript and Node.js
  libraries they call (\<^verbatim>\<open>split\<close>, \<^verbatim>\<open>includes\<close>, \<^verbatim>\<open>toLowerCase\<close>,
  \<^verbatim>\<open>decodeURIComponent\<close>, and \<^verbatim>\<open>path.join\<close>, \<^verbatim>\<open>path.dirname\<close>,
  \<^verbatim>\<open>path.extname\<close> in their POSIX form).

  Strings are \<^typ>\<open>string\<close>: a JavaScript string is represented by the bytes of its
  UTF-8 encoding, so every ASCII character is one \<^typ>\<open>char\<close>.
\<close>

subsection \<open>JavaScript strings\<close>

text \<open>\<^verbatim>\<open>s.split(sep)\<close> for a separator of one character; the result is never empty.\<close>

fun split :: "string \<Rightarrow> char \<Rightarrow> string list" where
  "split [] sep = [[]]"
| "split (c # cs) sep =
     (if c = sep then [] # split cs sep
      else (case split cs sep of
              [] \<Rightarrow> [[c]]
            | w # ws \<Rightarrow> (c # w) # ws))"

text \<open>\<^verbatim>\<open>xs[0]\<close> of an array of strings; \<^verbatim>\<open>undefined\<close> on the empty array, which
  \<^verbatim>\<open>decodeURIComponent\<close> would read as the text \<^verbatim>\<open>undefined\<close>.\<close>

definition first :: "string list \<Rightarrow> string" where
  "first xs = (case xs of [] \<Rightarrow> ''undefined'' | x # _ \<Rightarrow> x)"

text \<open>\<^verbatim>\<open>s.includes(sub)\<close>: \<^verbatim>\<open>sub\<close> occurs in \<^verbatim>\<open>s\<close> as a contiguous run.\<close>

fun includes_str :: "string \<Rightarrow> string \<Rightarrow> bool" where
  "includes_str [] sub = (sub = [])"
| "includes_str (c # cs) sub = (prefix sub (c # cs) \<or> includes_str cs sub)"

text \<open>\<^verbatim>\<open>xs.join(sep)\<close> of an array of strings.\<close>

fun joinWith :: "string \<Rightarrow> string list \<Rightarrow> string" where
  "joinWith sep [] = []"
| "joinWith sep [x] = x"
| "joinWith sep (x # y # ys) = x @ sep @ joinWith sep (y # ys)"

text \<open>
  \<^verbatim>\<open>s.toLowerCase()\<close> on the letters A to Z. The only character outside ASCII that
  JavaScript lowers to an ASCII letter is the Kelvin sign (to k), and no key of
  \<^verbatim>\<open>MIME_TYPES\<close> contains a k, so the table lookup below is not affected by
  leaving the bytes of non-ASCII characters as they are.
\<close>

definition lowerChar :: "char \<Rightarrow> char" where
  "lowerChar c =
     (let n = (of_char c :: nat)
      in if 65 \<le> n \<and> n \<le> 90 then char_of (n + 32) else c)"

definition toLowerCase :: "string \<Rightarrow> string" where
  "toLowerCase s = map lowerChar s"

subsection \<open>Exceptions\<close>

text \<open>
  The handler contains no \<^verbatim>\<open>try\<close>: an exception thrown by a synchronous call
  leaves the handler (or the callback of \<^verbatim>\<open>fs.stat\<close>) and no response is written.
  Such a run is the value \<open>Inl\<close> of the exception.
\<close>

datatype fs_error = ENOENT | EACCES | EIO | ENOTDIR | EISDIR | ELOOP | ENAMETOOLONG

datatype exn = URIError | ERR_INVALID_ARG_VALUE | FsError fs_error

subsection \<open>decodeURIComponent\<close>

text \<open>
  The algorithm \<^verbatim>\<open>Decode\<close> of ECMAScript with an empty set of preserved escapes.
  A percent sign must be followed by two hexadecimal digits. An octet below 128
  is the character itself; an octet with n leading one bits (n from 2 to 4) must
  be followed by n - 1 further escapes, and the n octets together must be the
  valid UTF-8 encoding of a code point. Everything else throws \<^verbatim>\<open>URIError\<close>.
  Since strings are kept as UTF-8 bytes here, the decoded octets are the result.
\<close>

definition hexDigit :: "char \<Rightarrow> nat option" where
  "hexDigit c =
     (let n = (of_char c :: nat)
      in if 48 \<le> n \<and> n \<le> 57 then Some (n - 48)
         else if 65 \<le> n \<and> n \<le> 70 then Some (n - 55)
         else if 97 \<le> n \<and> n \<le> 102 then Some (n - 87)
         else None)"

text \<open>The octet of an escape \<^verbatim>\<open>%XY\<close> at the start of the string, if there is one.\<close>

fun parseEscape :: "string \<Rightarrow> nat option" where
  "parseEscape (p # h # l # rest) =
     (if p = CHR ''%'' then
        (case hexDigit h of
           None \<Rightarrow> None
         | Some a \<Rightarrow> (case hexDigit l of None \<Rightarrow> None | Some b \<Rightarrow> Some (16 * a + b)))
      else None)"
| "parseEscape _ = None"

definition leadingOnes :: "nat \<Rightarrow> nat" where
  "leadingOnes b =
     (if b < 128 then 0 else if b < 192 then 1 else if b < 224 then 2
      else if b < 240 then 3 else if b < 248 then 4 else 5)"

text \<open>The \<open>j\<close> continuation escapes that follow the first octet.\<close>

fun continuationOctets :: "nat \<Rightarrow> string \<Rightarrow> nat list option" where
  "continuationOctets 0 s = Some []"
| "continuationOctets (Suc j) s =
     (case parseEscape s of
        None \<Rightarrow> None
      | Some b \<Rightarrow> map_option (Cons b) (continuationOctets j (drop 3 s)))"

fun codePoint :: "nat list \<Rightarrow> nat" where
  "codePoint [b0, b1] = (b0 mod 32) * 64 + b1 mod 64"
| "codePoint [b0, b1, b2] = (b0 mod 16) * 4096 + (b1 mod 64) * 64 + b2 mod 64"
| "codePoint [b0, b1, b2, b3] =
     (b0 mod 8) * 262144 + (b1 mod 64) * 4096 + (b2 mod 64) * 64 + b3 mod 64"
| "codePoint _ = 0"

definition minCodePoint :: "nat \<Rightarrow> nat" where
  "minCodePoint n = (if n = 2 then 128 else if n = 3 then 2048 else 65536)"

definition validUtf8 :: "nat list \<Rightarrow> bool" where
  "validUtf8 octets =
     (let v = codePoint octets
      in list_all (\<lambda>b. 128 \<le> b \<and> b < 192) (tl octets)
         \<and> minCodePoint (length octets) \<le> v \<and> v \<le> 1114111
         \<and> \<not> (55296 \<le> v \<and> v \<le> 57343))"

text \<open>
  One escape sequence, read after its percent sign has been seen: the decoded
  octets and the number of characters consumed after the percent sign.
\<close>

definition decodeEscape :: "string \<Rightarrow> (string \<times> nat) option" where
  "decodeEscape cs =
     (case parseEscape (CHR ''%'' # cs) of
        None \<Rightarrow> None
      | Some b \<Rightarrow>
          (let n = leadingOnes b
           in if n = 0 then Some ([char_of b], 2)
              else if n = 1 \<or> n > 4 then None
              else (case continuationOctets (n - 1) (drop 2 cs) of
                      None \<Rightarrow> None
                    | Some octets \<Rightarrow>
                        if validUtf8 (b # octets)
                        then Some (map char_of (b # octets), 2 + 3 * (n - 1))
                        else None)))"

fun decodeURIComponent :: "string \<Rightarrow> exn + string" where
  "decodeURIComponent [] = Inr []"
| "decodeURIComponent (c # cs) =
     (if c = CHR ''%'' then
        (case decodeEscape cs of
           None \<Rightarrow> Inl URIError
         | Some (s, k) \<Rightarrow>
             (case decodeURIComponent (drop k cs) of
                Inl e \<Rightarrow> Inl e
              | Inr r \<Rightarrow> Inr (s @ r)))
      else (case decodeURIComponent cs of
              Inl e \<Rightarrow> Inl e
            | Inr r \<Rightarrow> Inr (c # r)))"

subsection \<open>The module path (POSIX)\<close>

text \<open>
  \<^verbatim>\<open>normalizeString\<close> of Node.js, on the segments between slashes: empty segments
  and \<^verbatim>\<open>.\<close> are dropped, \<^verbatim>\<open>..\<close> removes the segment before it unless there is
  none or it is itself \<^verbatim>\<open>..\<close>; then it is kept when \<^verbatim>\<open>allowAboveRoot\<close> holds and
  dropped otherwise.
\<close>

fun normalizeSegments :: "bool \<Rightarrow> string list \<Rightarrow> string list \<Rightarrow> string list" where
  "normalizeSegments allowAboveRoot res [] = res"
| "normalizeSegments allowAboveRoot res (s # ss) =
     (if s = [] \<or> s = ''.'' then normalizeSegments allowAboveRoot res ss
      else if s = ''..'' then
        (if res \<noteq> [] \<and> last res \<noteq> ''..''
         then normalizeSegments allowAboveRoot (butlast res) ss
         else if allowAboveRoot then normalizeSegments allowAboveRoot (res @ [''..'']) ss
         else normalizeSegments allowAboveRoot res ss)
      else normalizeSegments allowAboveRoot (res @ [s]) ss)"

definition normalizeString :: "string \<Rightarrow> bool \<Rightarrow> string" where
  "normalizeString path allowAboveRoot =
     joinWith ''/'' (normalizeSegments allowAboveRoot [] (split path CHR ''/''))"

definition normalize :: "string \<Rightarrow> string" where
  "normalize path =
     (if path = [] then ''.''
      else
        (let isAbsolute = (hd path = CHR ''/'');
             trailingSeparator = (last path = CHR ''/'');
             p = normalizeString path (\<not> isAbsolute)
         in if p = [] then
              (if isAbsolute then ''/'' else if trailingSeparator then ''./'' else ''.'')
            else (if isAbsolute then ''/'' else []) @ p
                 @ (if trailingSeparator then ''/'' else [])))"

text \<open>\<^verbatim>\<open>path.join(a, b)\<close>: the non-empty arguments, joined by a slash and normalized.\<close>

definition join :: "string \<Rightarrow> string \<Rightarrow> string" where
  "join a b =
     (if a = [] \<and> b = [] then ''.''
      else if a = [] then normalize b
      else if b = [] then normalize a
      else normalize (a @ ''/'' @ b))"

text \<open>
  \<^verbatim>\<open>path.dirname\<close>: scanning from the right down to index 1, trailing slashes and
  then the last segment are skipped; the slash before that segment ends the result.
\<close>

definition dirname :: "string \<Rightarrow> string" where
  "dirname path =
     (if path = [] then ''.''
      else
        (let hasRoot = (hd path = CHR ''/'');
             scanned = dropWhile (\<lambda>c. c \<noteq> CHR ''/'')
                         (dropWhile (\<lambda>c. c = CHR ''/'') (rev (tl path)))
         in if scanned = [] then (if hasRoot then ''/'' else ''.'')
            else (let end = length scanned
                  in if hasRoot \<and> end = 1 then ''//'' else take end path)))"

text \<open>
  \<^verbatim>\<open>path.extname\<close>: the last segment, trailing slashes ignored, from its last dot
  on; empty when there is no dot, when the dot is the first character of the
  segment, and for the segment \<^verbatim>\<open>..\<close>.
\<close>

definition basePart :: "string \<Rightarrow> string" where
  "basePart path =
     rev (takeWhile (\<lambda>c. c \<noteq> CHR ''/'') (dropWhile (\<lambda>c. c = CHR ''/'') (rev path)))"

definition extname :: "string \<Rightarrow> string" where
  "extname path =
     (let base = basePart path;
          afterDot = takeWhile (\<lambda>c. c \<noteq> CHR ''.'') (rev base)
      in if CHR ''.'' \<notin> set base then []
         else if length afterDot + 1 = length base then []
         else if base = ''..'' then []
         else CHR ''.'' # rev afterDot)"

subsection \<open>The table MIME_TYPES\<close>

definition MIME_TYPES :: "(string \<times> string) list" where
  "MIME_TYPES =
     [(''.html'', ''text/html''),
      (''.css'', ''text/css''),
      (''.js'', ''text/javascript''),
      (''.json'', ''application/json''),
      (''.png'', ''image/png''),
      (''.jpg'', ''image/jpeg''),
      (''.jpeg'', ''image/jpeg''),
      (''.gif'', ''image/gif''),
      (''.svg'', ''image/svg+xml''),
      (''.ico'', ''image/x-icon''),
      (''.webp'', ''image/webp''),
      (''.mp4'', ''video/mp4''),
      (''.webm'', ''video/webm''),
      (''.mp3'', ''audio/mpeg''),
      (''.wav'', ''audio/wav''),
      (''.pdf'', ''application/pdf''),
      (''.txt'', ''text/plain''),
      (''.xml'', ''application/xml''),
      (''.woff'', ''font/woff''),
      (''.woff2'', ''font/woff2''),
      (''.ttf'', ''font/ttf''),
      (''.md'', ''text/markdown'')]"

text \<open>
  \<^verbatim>\<open>MIME_TYPES[ext] || 'application/octet-stream'\<close>. No value of the table is the
  empty string, so the default is taken exactly when the key is missing. The
  handler looks up the result of \<^verbatim>\<open>path.extname\<close>, which is empty or starts with
  a dot; no property that the object inherits has such a name.
\<close>

definition mimeTypeOf :: "string \<Rightarrow> string" where
  "mimeTypeOf ext =
     (case map_of MIME_TYPES ext of
        None \<Rightarrow> ''application/octet-stream''
      | Some t \<Rightarrow> if t = [] then ''application/octet-stream'' else t)"

subsection \<open>Extensions that differ in case only\<close>




subsection \<open>The file system and the runtime\<close>

text \<open>
  What \<^verbatim>\<open>fs.Stats\<close> gives the program: \<^verbatim>\<open>isDirectory()\<close>, \<^verbatim>\<open>size\<close> and
  \<^verbatim>\<open>mtime\<close> (a time stamp).
\<close>

record stats =
  isDirectory :: bool
  size_bytes :: nat
  mtime :: nat

text \<open>
  The file system is what its calls answer, path by path. The answers are not
  related to each other: the file system may change between two calls of a
  request. \<^verbatim>\<open>fs.stat\<close> and \<^verbatim>\<open>fs.readFile\<close> hand their error to the callback;
  \<^verbatim>\<open>fs.readdirSync\<close> and \<^verbatim>\<open>fs.statSync\<close> throw it; \<^verbatim>\<open>fs.existsSync\<close> never
  fails.
\<close>

record filesystem =
  stat :: "string \<Rightarrow> fs_error + stats"
  existsSync :: "string \<Rightarrow> bool"
  readFile :: "string \<Rightarrow> fs_error + string"
  readdirSync :: "string \<Rightarrow> fs_error + string list"
  statSync :: "string \<Rightarrow> fs_error + stats"

text \<open>The file-system calls of a request, in the order they are made.\<close>

datatype fs_call =
  Stat string | ExistsSync string | ReadFile string | ReaddirSync string | StatSync string

fun call_path :: "fs_call \<Rightarrow> string" where
  "call_path (Stat p) = p"
| "call_path (ExistsSync p) = p"
| "call_path (ReadFile p) = p"
| "call_path (ReaddirSync p) = p"
| "call_path (StatSync p) = p"

text \<open>
  Taken as parameters: \<^verbatim>\<open>String.prototype.localeCompare\<close> (the collation of
  the host's locale), \<^verbatim>\<open>Date.prototype.toLocaleString\<close>, and the program's
  \<^verbatim>\<open>formatBytes\<close>, which computes in floating point (\<^verbatim>\<open>Math.log\<close>).
\<close>

record runtime =
  localeCompare :: "string \<Rightarrow> string \<Rightarrow> int"
  toLocaleString :: "nat \<Rightarrow> string"
  formatBytes :: "nat \<Rightarrow> string"

subsection \<open>generateDirectoryListing\<close>

record item =
  name :: string
  href :: string
  isDir :: bool
  size_text :: string
  modified :: nat

text \<open>\<^verbatim>\<open>files.map(file => ...)\<close>: the first \<^verbatim>\<open>statSync\<close> that fails throws.\<close>

fun mapFiles ::
  "runtime \<Rightarrow> filesystem \<Rightarrow> string \<Rightarrow> string \<Rightarrow> string list \<Rightarrow> fs_call list \<times> (exn + item list)"
where
  "mapFiles rt fs dirPath urlPath [] = ([], Inr [])"
| "mapFiles rt fs dirPath urlPath (file # files) =
     (let filePath = join dirPath file
      in case statSync fs filePath of
           Inl e \<Rightarrow> ([StatSync filePath], Inl (FsError e))
         | Inr st \<Rightarrow>
             (let it = \<lparr> name = file,
                         href = join urlPath file,
                         isDir = isDirectory st,
                         size_text = (if isDirectory st then ''-'' else formatBytes rt (size_bytes st)),
                         modified = mtime st \<rparr>
              in case mapFiles rt fs dirPath urlPath files of
                   (calls, Inl e) \<Rightarrow> (StatSync filePath # calls, Inl e)
                 | (calls, Inr items) \<Rightarrow> (StatSync filePath # calls, Inr (it # items))))"

text \<open>The comparison function handed to \<^verbatim>\<open>items.sort\<close>.\<close>

definition compareItems :: "runtime \<Rightarrow> item \<Rightarrow> item \<Rightarrow> int" where
  "compareItems rt a b =
     (if isDir a \<and> \<not> isDir b then - 1
      else if \<not> isDir a \<and> isDir b then 1
      else localeCompare rt (name a) (name b))"

text \<open>
  \<^verbatim>\<open>Array.prototype.sort\<close> with a comparison function is a stable sort; for a
  consistent comparison function its result is the one of the stable insertion
  sort below.
\<close>

fun insertSorted :: "('a \<Rightarrow> 'a \<Rightarrow> int) \<Rightarrow> 'a \<Rightarrow> 'a list \<Rightarrow> 'a list" where
  "insertSorted cmp x [] = [x]"
| "insertSorted cmp x (y # ys) =
     (if cmp x y \<le> 0 then x # y # ys else y # insertSorted cmp x ys)"

definition sortWith :: "('a \<Rightarrow> 'a \<Rightarrow> int) \<Rightarrow> 'a list \<Rightarrow> 'a list" where
  "sortWith cmp xs = foldr (insertSorted cmp) xs []"

definition folderIcon :: string where
  "folderIcon = [CHR 0xF0, CHR 0x9F, CHR 0x93, CHR 0x81]"

definition fileIcon :: string where
  "fileIcon = [CHR 0xF0, CHR 0x9F, CHR 0x93, CHR 0x84]"

text \<open>The row of the parent directory, for the link it is given.\<close>

definition parentRow :: "string \<Rightarrow> string" where
  \<open>parentRow link =
     ''<tr><td><a href="'' @ link @ ''">'' @ folderIcon
     @ '' ..</a></td><td>-</td><td>-</td></tr>''\<close>

definition parentOf :: "string \<Rightarrow> string" where
  "parentOf urlPath = (if urlPath \<noteq> ''/'' then parentRow (dirname urlPath) else [])"

definition renderRow :: "runtime \<Rightarrow> item \<Rightarrow> string" where
  \<open>renderRow rt it =
     ''\<newline>''
     @ ''    <tr>\<newline>''
     @ ''      <td><a href="'' @ href it @ ''">''
     @ (if isDir it then folderIcon else fileIcon) @ '' '' @ name it
     @ (if isDir it then ''/'' else []) @ ''</a></td>\<newline>''
     @ ''      <td>'' @ size_text it @ ''</td>\<newline>''
     @ ''      <td>'' @ toLocaleString rt (modified it) @ ''</td>\<newline>''
     @ ''    </tr>\<newline>''
     @ ''  ''\<close>

definition renderRows :: "runtime \<Rightarrow> item list \<Rightarrow> string" where
  "renderRows rt items = joinWith [] (map (renderRow rt) items)"

text \<open>The fixed text of the page, between the values the template fills in.\<close>

definition pageStart :: string where
  \<open>pageStart =
     ''\<newline>''
     @ ''<!DOCTYPE html>\<newline>''
     @ ''<html>\<newline>''
     @ ''<head>\<newline>''
     @ ''  <meta charset="UTF-8">\<newline>''
     @ ''  <meta name="viewport" content="width=device-width, initial-scale=1.0">\<newline>''
     @ ''  <title>Index of ''\<close>

definition pageTitleEnd :: string where
  \<open>pageTitleEnd =
     ''</title>\<newline>''
     @ ''  <style>\<newline>''
     @ ''    * { margin: 0; padding: 0; box-sizing: border-box; }\<newline>''
     @ ''    body {\<newline>''
     @ ''      font-family: -apple-system, BlinkMacSystemFont, 'Segoe UI', sans-serif;\<newline>''
     @ ''      padding: 2rem;\<newline>''
     @ ''      background: #f5f5f5;\<newline>''
     @ ''    }\<newline>''
     @ ''    .container {\<newline>''
     @ ''      max-width: 1200px;\<newline>''
     @ ''      margin: 0 auto;\<newline>''
     @ ''      background: white;\<newline>''
     @ ''      border-radius: 8px;\<newline>''
     @ ''      box-shadow: 0 2px 8px rgba(0,0,0,0.1);\<newline>''
     @ ''      padding: 2rem;\<newline>''
     @ ''    }\<newline>''
     @ ''    h1 {\<newline>''
     @ ''      color: #333;\<newline>''
     @ ''      margin-bottom: 1.5rem;\<newline>''
     @ ''      font-size: 1.5rem;\<newline>''
     @ ''    }\<newline>''
     @ ''    table {\<newline>''
     @ ''      width: 100%;\<newline>''
     @ ''      border-collapse: collapse;\<newline>''
     @ ''    }\<newline>''
     @ ''    th {\<newline>''
     @ ''      text-align: left;\<newline>''
     @ ''      padding: 0.75rem;\<newline>''
     @ ''      background: #f8f9fa;\<newline>''
     @ ''      font-weight: 600;\<newline>''
     @ ''      border-bottom: 2px solid #dee2e6;\<newline>''
     @ ''    }\<newline>''
     @ ''    td {\<newline>''
     @ ''      padding: 0.75rem;\<newline>''
     @ ''      border-bottom: 1px solid #e9ecef;\<newline>''
     @ ''    }\<newline>''
     @ ''    tr:hover {\<newline>''
     @ ''      background: #f8f9fa;\<newline>''
     @ ''    }\<newline>''
     @ ''    a {\<newline>''
     @ ''      color: #0066cc;\<newline>''
     @ ''      text-decoration: none;\<newline>''
     @ ''    }\<newline>''
     @ ''    a:hover {\<newline>''
     @ ''      text-decoration: underline;\<newline>''
     @ ''    }\<newline>''
     @ ''    .path {\<newline>''
     @ ''      color: #666;\<newline>''
     @ ''      font-size: 0.9rem;\<newline>''
     @ ''      font-family: monospace;\<newline>''
     @ ''    }\<newline>''
     @ ''  </style>\<newline>''
     @ ''</head>\<newline>''
     @ ''<body>\<newline>''
     @ ''  <div class="container">\<newline>''
     @ ''    <h1>Index of ''\<close>

definition pageHeadingEnd :: string where
  \<open>pageHeadingEnd =
     ''</h1>\<newline>''
     @ ''    <p class="path">''\<close>

definition pagePathEnd :: string where
  \<open>pagePathEnd =
     ''</p>\<newline>''
     @ ''    <table>\<newline>''
     @ ''      <thead>\<newline>''
     @ ''        <tr>\<newline>''
     @ ''          <th>Name</th>\<newline>''
     @ ''          <th>Size</th>\<newline>''
     @ ''          <th>Modified</th>\<newline>''
     @ ''        </tr>\<newline>''
     @ ''      </thead>\<newline>''
     @ ''      <tbody>\<newline>''
     @ ''        ''\<close>

definition pageBetween :: string where
  \<open>pageBetween =
     ''\<newline>''
     @ ''        ''\<close>

definition pageEnd :: string where
  \<open>pageEnd =
     ''\<newline>''
     @ ''      </tbody>\<newline>''
     @ ''    </table>\<newline>''
     @ ''  </div>\<newline>''
     @ ''</body>\<newline>''
     @ ''</html>\<newline>''
     @ ''  ''\<close>

definition renderPage :: "string \<Rightarrow> string \<Rightarrow> string \<Rightarrow> string \<Rightarrow> string" where
  "renderPage urlPath dirPath parent rows =
     pageStart @ urlPath @ pageTitleEnd @ urlPath @ pageHeadingEnd @ dirPath
     @ pagePathEnd @ parent @ pageBetween @ rows @ pageEnd"

text \<open>
  The first part of \<^verbatim>\<open>generateDirectoryListing\<close>: the directory is read, every
  child is queried, and the items are sorted.
\<close>

definition sortedItems ::
  "runtime \<Rightarrow> filesystem \<Rightarrow> string \<Rightarrow> string \<Rightarrow> fs_call list \<times> (exn + item list)"
where
  "sortedItems rt fs dirPath urlPath =
     (case readdirSync fs dirPath of
        Inl e \<Rightarrow> ([ReaddirSync dirPath], Inl (FsError e))
      | Inr files \<Rightarrow>
          (case mapFiles rt fs dirPath urlPath files of
             (calls, Inl e) \<Rightarrow> (ReaddirSync dirPath # calls, Inl e)
           | (calls, Inr items) \<Rightarrow>
               (ReaddirSync dirPath # calls, Inr (sortWith (compareItems rt) items))))"

text \<open>The second part: the parent row, the rows of the items, and the page.\<close>

definition generateDirectoryListing ::
  "runtime \<Rightarrow> filesystem \<Rightarrow> string \<Rightarrow> string \<Rightarrow> fs_call list \<times> (exn + string)"
where
  "generateDirectoryListing rt fs dirPath urlPath =
     (case sortedItems rt fs dirPath urlPath of
        (calls, Inl e) \<Rightarrow> (calls, Inl e)
      | (calls, Inr items) \<Rightarrow>
          (calls,
           Inr (renderPage urlPath dirPath (parentOf urlPath) (renderRows rt items))))"

subsection \<open>The request handler of createServer\<close>

record response =
  status :: nat
  contentType :: string
  body :: string

text \<open>
  The handler, from the request's \<^verbatim>\<open>url\<close> to the response written, with the
  file-system calls made on the way. \<open>Inl\<close> is an exception that nothing catches.
  \<^verbatim>\<open>fs.stat\<close> validates its path before it queries the file system and throws
  \<^verbatim>\<open>ERR_INVALID_ARG_VALUE\<close>, synchronously, when the path contains a NUL
  character. The paths of the later calls extend \<^verbatim>\<open>filePath\<close> by names without
  NUL, apart from the names \<^verbatim>\<open>readdirSync\<close> returns, whose \<^verbatim>\<open>statSync\<close> throws
  in any case when it fails.
\<close>

definition handler ::
  "runtime \<Rightarrow> filesystem \<Rightarrow> string \<Rightarrow> string \<Rightarrow> fs_call list \<times> (exn + response)"
where
  "handler rt fs rootDir url =
     (case decodeURIComponent (first (split url CHR ''?'')) of
        Inl e \<Rightarrow> ([], Inl e)
      | Inr urlPath \<Rightarrow>
          if includes_str urlPath ''..'' then
            ([], Inr \<lparr> status = 403, contentType = ''text/plain'', body = ''403 Forbidden'' \<rparr>)
          else
            (let filePath = join rootDir urlPath
             in if CHR 0x00 \<in> set filePath then ([], Inl ERR_INVALID_ARG_VALUE)
                else case stat fs filePath of
                  Inl err \<Rightarrow>
                    ([Stat filePath],
                     Inr \<lparr> status = 404, contentType = ''text/plain'', body = ''404 Not Found'' \<rparr>)
                | Inr st \<Rightarrow>
                    if isDirectory st then
                      (let indexPath = join filePath ''index.html''
                       in if existsSync fs indexPath then
                            (case readFile fs indexPath of
                               Inl err \<Rightarrow>
                                 ([Stat filePath, ExistsSync indexPath, ReadFile indexPath],
                                  Inr \<lparr> status = 500, contentType = ''text/plain'',
                                        body = ''500 Internal Server Error'' \<rparr>)
                             | Inr data \<Rightarrow>
                                 ([Stat filePath, ExistsSync indexPath, ReadFile indexPath],
                                  Inr \<lparr> status = 200, contentType = ''text/html'', body = data \<rparr>))
                          else
                            (case generateDirectoryListing rt fs filePath urlPath of
                               (calls, Inl e) \<Rightarrow>
                                 (Stat filePath # ExistsSync indexPath # calls, Inl e)
                             | (calls, Inr html) \<Rightarrow>
                                 (Stat filePath # ExistsSync indexPath # calls,
                                  Inr \<lparr> status = 200, contentType = ''text/html'', body = html \<rparr>)))
                    else
                      (let ext = toLowerCase (extname filePath);
                           mimeType = mimeTypeOf ext
                       in case readFile fs filePath of
                            Inl err \<Rightarrow>
                              ([Stat filePath, ReadFile filePath],
                               Inr \<lparr> status = 500, contentType = ''text/plain'',
                                     body = ''500 Internal Server Error'' \<rparr>)
                          | Inr data \<Rightarrow>
                              ([Stat filePath, ReadFile filePath],
                               Inr \<lparr> status = 200, contentType = mimeType, body = data \<rparr>))))"

subsection \<open>Paths below the root directory\<close>

text \<open>
  The names a path consists of, as the operating system reads it: the non-empty
  segments between its slashes.
\<close>

definition pathSegments :: "string \<Rightarrow> string list" where
  "pathSegments p = filter (\<lambda>s. s \<noteq> []) (split p CHR ''/'')"

text \<open>The segments that \<^verbatim>\<open>normalizeString\<close> keeps of an absolute path.\<close>

definition keptSegments :: "string \<Rightarrow> string list" where
  "keptSegments p = normalizeSegments False [] (split p CHR ''/'')"

text \<open>
  An absolute path names the root directory or something below it when the
  names of the root directory are its first names and none of its names is
  \<^verbatim>\<open>..\<close>.
\<close>

definition isInside :: "string \<Rightarrow> string \<Rightarrow> bool" where
  "isInside rootDir p \<longleftrightarrow>
     prefix ''/'' p \<and> prefix (pathSegments rootDir) (pathSegments p)
     \<and> ''..'' \<notin> set (pathSegments p)"

text \<open>
  What \<^verbatim>\<open>path.resolve\<close> and \<^verbatim>\<open>process.cwd\<close> hand to \<^verbatim>\<open>createServer\<close>: an
  absolute path in normal form.
\<close>

definition isResolved :: "string \<Rightarrow> bool" where
  "isResolved rootDir \<longleftrightarrow> prefix ''/'' rootDir \<and> normalize rootDir = rootDir"

text \<open>
  The names of directory entries: not empty, without a slash, and neither
  \<^verbatim>\<open>.\<close> nor \<^verbatim>\<open>..\<close>, which \<^verbatim>\<open>readdir\<close> leaves out.
\<close>

definition isEntryName :: "string \<Rightarrow> bool" where
  "isEntryName n \<longleftrightarrow> n \<noteq> [] \<and> CHR ''/'' \<notin> set n \<and> n \<noteq> ''.'' \<and> n \<noteq> ''..''"

definition entryNamesOnly :: "filesystem \<Rightarrow> bool" where
  "entryNamesOnly fs \<longleftrightarrow>
     (\<forall>d files. readdirSync fs d = Inr files \<longrightarrow> (\<forall>n\<in>set files. isEntryName n))"

subsection \<open>An example site\<close>

text \<open>A comparison of strings byte by byte, standing for a collation.\<close>

fun compareBytes :: "string \<Rightarrow> string \<Rightarrow> int" where
  "compareBytes [] [] = 0"
| "compareBytes [] (y # ys) = - 1"
| "compareBytes (x # xs) [] = 1"
| "compareBytes (x # xs) (y # ys) =
     (if (of_char x :: nat) < of_char y then - 1
      else if (of_char y :: nat) < of_char x then 1
      else compareBytes xs ys)"

definition exampleRuntime :: runtime where
  "exampleRuntime =
     \<lparr> localeCompare = compareBytes,
       toLocaleString = (\<lambda>t. ''1/1/1970, 12:00:00 AM''),
       formatBytes = (\<lambda>n. if n = 0 then ''0 B'' else ''5 B'') \<rparr>"

definition dirStats :: stats where
  "dirStats = \<lparr> isDirectory = True, size_bytes = 4096, mtime = 0 \<rparr>"

definition fileStats :: stats where
  "fileStats = \<lparr> isDirectory = False, size_bytes = 5, mtime = 0 \<rparr>"

text \<open>
  What the file system answers for the site \<^verbatim>\<open>/srv/www\<close>: a file \<^verbatim>\<open>notes.TXT\<close>,
  a directory \<^verbatim>\<open>docs\<close> with an \<^verbatim>\<open>index.html\<close>, a directory \<^verbatim>\<open>broken\<close> whose
  \<^verbatim>\<open>index.html\<close> cannot be read, a directory \<^verbatim>\<open>pics\<close> with the directories
  \<^verbatim>\<open>cherry\<close> and \<^verbatim>\<open>Apple\<close> (which is empty) and the files \<^verbatim>\<open>banana.txt\<close> and
  \<^verbatim>\<open>apple.txt\<close>, a directory \<^verbatim>\<open>locked\<close> that cannot be read, a directory
  \<^verbatim>\<open>stale\<close> whose entry \<^verbatim>\<open>gone\<close> cannot be queried (a link to nothing), and an
  entry \<^verbatim>\<open>private\<close> that the server may not query.
\<close>

definition exampleFs :: filesystem where
  "exampleFs =
     \<lparr> stat = (\<lambda>p.
         if p = ''/srv/www/'' \<or> p = ''/srv/www/docs'' \<or> p = ''/srv/www/docs/''
            \<or> p = ''/srv/www/broken'' \<or> p = ''/srv/www/pics'' \<or> p = ''/srv/www/locked''
            \<or> p = ''/srv/www/stale'' \<or> p = ''/srv/www/pics/Apple''
            \<or> p = ''/srv/www/pics/Apple/''
         then Inr dirStats
         else if p = ''/srv/www/notes.TXT'' then Inr fileStats
         else if p = ''/srv/www/private'' then Inl EACCES
         else Inl ENOENT),
       existsSync = (\<lambda>p.
         p = ''/srv/www/docs/index.html'' \<or> p = ''/srv/www/broken/index.html''),
       readFile = (\<lambda>p.
         if p = ''/srv/www/notes.TXT'' then Inr ''hello''
         else if p = ''/srv/www/docs/index.html'' then Inr ''<h1>Docs</h1>''
         else if p = ''/srv/www/broken/index.html'' then Inl EACCES
         else Inl ENOENT),
       readdirSync = (\<lambda>p.
         if p = ''/srv/www/pics''
         then Inr [''banana.txt'', ''cherry'', ''Apple'', ''apple.txt'']
         else if p = ''/srv/www/pics/Apple'' \<or> p = ''/srv/www/pics/Apple/'' then Inr []
         else if p = ''/srv/www/'' then Inr [''notes.TXT'', ''docs'', ''broken'', ''pics'']
         else if p = ''/srv/www/stale'' then Inr [''gone'']
         else if p = ''/srv/www/locked'' then Inl EACCES
         else Inl ENOENT),
       statSync = (\<lambda>p.
         if p = ''/srv/www/pics/Apple'' \<or> p = ''/srv/www/pics/cherry''
            \<or> p = ''/srv/www/docs'' \<or> p = ''/srv/www/broken'' \<or> p = ''/srv/www/pics''
         then Inr dirStats
         else if p = ''/srv/www/pics/banana.txt'' \<or> p = ''/srv/www/pics/apple.txt''
                 \<or> p = ''/srv/www/notes.TXT''
         then Inr fileStats
         else Inl ENOENT) \<rparr>"

section \<open>Properties\<close>

subsection \<open>Strings\<close>

lemma includes_str_iff: "includes_str s sub \<longleftrightarrow> (\<exists>pre post. s = pre @ sub @ post)"
proof (induction s)
  case Nil
  then show ?case by auto
next
  case (Cons c cs)
  show ?case
  proof
    assume "includes_str (c # cs) sub"
    then consider "prefix sub (c # cs)" | "includes_str cs sub" by auto
    then show "\<exists>pre post. c # cs = pre @ sub @ post"
    proof cases
      case 1
      then obtain post where "c # cs = sub @ post" by (auto simp: prefix_def)
      then have "c # cs = [] @ sub @ post" by simp
      then show ?thesis by blast
    next
      case 2
      with Cons.IH obtain pre post where "cs = pre @ sub @ post" by blast
      then have "c # cs = (c # pre) @ sub @ post" by simp
      then show ?thesis by blast
    qed
  next
    assume "\<exists>pre post. c # cs = pre @ sub @ post"
    then obtain pre post where eq: "c # cs = pre @ sub @ post" by blast
    show "includes_str (c # cs) sub"
    proof (cases pre)
      case Nil
      with eq have "prefix sub (c # cs)" by (simp add: prefix_def)
      then show ?thesis by simp
    next
      case (Cons d pre')
      with eq have "cs = pre' @ sub @ post" by simp
      with Cons.IH have "includes_str cs sub" by blast
      then show ?thesis by simp
    qed
  qed
qed

lemma split_not_Nil: "split s sep \<noteq> []"
  by (induction s) (auto split: list.splits)

lemma split_first_prefix: "split s sep = w # ws \<Longrightarrow> \<exists>post. s = w @ post"
  by (induction s arbitrary: w ws) (auto split: if_splits list.splits)

lemma split_member_infix: "seg \<in> set (split s sep) \<Longrightarrow> \<exists>pre post. s = pre @ seg @ post"
proof (induction s arbitrary: seg)
  case Nil
  then show ?case by simp
next
  case (Cons c cs)
  obtain w ws where sp: "split cs sep = w # ws"
    using split_not_Nil [of cs sep] by (cases "split cs sep") auto
  show ?case
  proof (cases "c = sep")
    case True
    with Cons.prems have "seg = [] \<or> seg \<in> set (split cs sep)" by auto
    then show ?thesis
    proof
      assume "seg = []"
      then have "c # cs = [] @ seg @ (c # cs)" by simp
      then show ?thesis by blast
    next
      assume "seg \<in> set (split cs sep)"
      then obtain pre post where "cs = pre @ seg @ post" using Cons.IH by blast
      then have "c # cs = (c # pre) @ seg @ post" by simp
      then show ?thesis by blast
    qed
  next
    case False
    with Cons.prems sp have "seg = c # w \<or> seg \<in> set ws" by auto
    then show ?thesis
    proof
      assume s: "seg = c # w"
      from split_first_prefix [OF sp] obtain post where "cs = w @ post" by blast
      with s have "c # cs = [] @ seg @ post" by simp
      then show ?thesis by blast
    next
      assume "seg \<in> set ws"
      with sp have "seg \<in> set (split cs sep)" by simp
      then obtain pre post where "cs = pre @ seg @ post" using Cons.IH by blast
      then have "c # cs = (c # pre) @ seg @ post" by simp
      then show ?thesis by blast
    qed
  qed
qed

lemma split_append_sep: "split (a @ sep # b) sep = split a sep @ split b sep"
proof (induction a)
  case Nil
  then show ?case by simp
next
  case (Cons c a)
  obtain w ws where "split a sep = w # ws"
    using split_not_Nil [of a sep] by (cases "split a sep") auto
  with Cons show ?case by simp
qed

lemma split_no_sep: "sep \<notin> set s \<Longrightarrow> split s sep = [s]"
  by (induction s) auto

lemma split_elements_no_sep: "s \<in> set (split p sep) \<Longrightarrow> sep \<notin> set s"
proof (induction p arbitrary: s)
  case Nil
  then show ?case by simp
next
  case (Cons c p)
  obtain w ws where sp: "split p sep = w # ws"
    using split_not_Nil [of p sep] by (cases "split p sep") auto
  show ?case
  proof (cases "c = sep")
    case True
    with Cons show ?thesis by auto
  next
    case False
    with Cons.prems sp have "s = c # w \<or> s \<in> set ws" by auto
    with Cons.IH sp False show ?thesis by auto
  qed
qed

lemma split_joinWith:
  assumes "xs \<noteq> []" and "\<forall>s\<in>set xs. sep \<notin> set s"
  shows "split (joinWith [sep] xs) sep = xs"
  using assms
proof (induction xs)
  case Nil
  then show ?case by simp
next
  case (Cons x xs)
  show ?case
  proof (cases xs)
    case Nil
    with Cons.prems show ?thesis by (simp add: split_no_sep)
  next
    case (Cons y ys)
    with Cons.prems Cons.IH have "split (joinWith [sep] xs) sep = xs" by simp
    with Cons Cons.prems show ?thesis
      by (simp add: split_append_sep split_no_sep)
  qed
qed

lemma joinWith_eq_Nil:
  assumes "\<forall>s\<in>set xs. s \<noteq> []"
  shows "joinWith sep xs = [] \<longleftrightarrow> xs = []"
  using assms by (induction sep xs rule: joinWith.induct) auto

lemma joinWith_empty_sep: "joinWith [] xs = concat xs"
proof (induction xs)
  case Nil
  then show ?case by simp
next
  case (Cons x xs)
  then show ?case by (cases xs) auto
qed

lemma dropWhile_all: "\<forall>x\<in>set xs. P x \<Longrightarrow> dropWhile P (xs @ ys) = dropWhile P ys"
  by (induction xs) auto

subsection \<open>Paths\<close>

lemma normalizeSegments_append:
  "normalizeSegments a res (xs @ ys) = normalizeSegments a (normalizeSegments a res xs) ys"
  by (induction xs arbitrary: res) auto

lemma normalizeSegments_plain:
  "''..'' \<notin> set ys \<Longrightarrow>
     normalizeSegments a res ys = res @ filter (\<lambda>s. s \<noteq> [] \<and> s \<noteq> ''.'') ys"
  by (induction ys arbitrary: res) auto

lemma normalizeSegments_entry_names:
  assumes "\<forall>s\<in>set res. isEntryName s" and "\<forall>s\<in>set xs. CHR ''/'' \<notin> set s"
  shows "\<forall>s\<in>set (normalizeSegments False res xs). isEntryName s"
  using assms
proof (induction xs arbitrary: res)
  case Nil
  then show ?case by simp
next
  case (Cons x xs)
  have b: "\<forall>s\<in>set (butlast res). isEntryName s"
    using Cons.prems(1) by (auto dest: in_set_butlastD)
  have e: "x \<noteq> [] \<Longrightarrow> x \<noteq> ''.'' \<Longrightarrow> x \<noteq> ''..'' \<Longrightarrow> \<forall>s\<in>set (res @ [x]). isEntryName s"
    using Cons.prems by (auto simp: isEntryName_def)
  from Cons.prems(2) have t: "\<forall>s\<in>set xs. CHR ''/'' \<notin> set s" by simp
  show ?case
    using Cons.IH [OF Cons.prems(1) t] Cons.IH [OF b t] Cons.IH [OF e t]
    by auto
qed

lemma keptSegments_entry_names: "\<forall>s\<in>set (keptSegments p). isEntryName s"
  unfolding keptSegments_def
  by (rule normalizeSegments_entry_names) (auto dest: split_elements_no_sep)

lemma normalizeSegments_kept:
  assumes "\<forall>s\<in>set xs. isEntryName s"
  shows "normalizeSegments a res xs = res @ xs"
proof -
  from assms have "''..'' \<notin> set xs" by (auto simp: isEntryName_def)
  moreover from assms have "filter (\<lambda>s. s \<noteq> [] \<and> s \<noteq> ''.'') xs = xs"
    by (auto simp: isEntryName_def intro!: filter_True)
  ultimately show ?thesis by (simp add: normalizeSegments_plain)
qed

text \<open>The shape of a normalized absolute path.\<close>

lemma normalize_absolute:
  assumes "prefix ''/'' p"
  shows "normalize p =
           (if keptSegments p = [] then ''/''
            else ''/'' @ joinWith ''/'' (keptSegments p)
                 @ (if last p = CHR ''/'' then ''/'' else []))"
proof -
  from assms have p: "p \<noteq> []" "hd p = CHR ''/''" by (auto simp: prefix_def)
  have e: "joinWith ''/'' (keptSegments p) = [] \<longleftrightarrow> keptSegments p = []"
    by (rule joinWith_eq_Nil) (use keptSegments_entry_names in \<open>auto simp: isEntryName_def\<close>)
  have n: "normalizeString p False = joinWith ''/'' (keptSegments p)"
    by (simp add: normalizeString_def keptSegments_def)
  show ?thesis
    by (simp add: normalize_def n p e Let_def)
qed

lemma pathSegments_normalize:
  assumes "prefix ''/'' p"
  shows "pathSegments (normalize p) = keptSegments p"
    and "keptSegments (normalize p) = keptSegments p"
    and "prefix ''/'' (normalize p)"
proof -
  let ?S = "keptSegments p"
  have names: "\<forall>s\<in>set ?S. isEntryName s" by (rule keptSegments_entry_names)
  then have nosep: "\<forall>s\<in>set ?S. CHR ''/'' \<notin> set s" and nonempty: "\<forall>s\<in>set ?S. s \<noteq> []"
    by (auto simp: isEntryName_def)
  have sp: "split (normalize p) CHR ''/'' =
              (if ?S = [] then [[], []]
               else [] # ?S @ (if last p = CHR ''/'' then [[]] else []))"
  proof (cases "?S = []")
    case True
    then show ?thesis by (simp add: normalize_absolute [OF assms])
  next
    case False
    then have j: "split (joinWith ''/'' ?S) CHR ''/'' = ?S"
      using split_joinWith [of ?S "CHR ''/''"] nosep by simp
    have "split (joinWith ''/'' ?S @ ''/'') CHR ''/'' = ?S @ [[]]"
      using split_append_sep [of "joinWith ''/'' ?S" "CHR ''/''" "[]"] j by simp
    with False j show ?thesis by (simp add: normalize_absolute [OF assms])
  qed
  have f: "filter (\<lambda>s. s \<noteq> []) ?S = ?S"
    using nonempty by (auto intro!: filter_True)
  show "pathSegments (normalize p) = ?S"
    by (simp add: pathSegments_def sp f)
  have "normalizeSegments False [] (split (normalize p) CHR ''/'') = normalizeSegments False [] ?S"
    by (simp add: sp normalizeSegments_append)
  then show "keptSegments (normalize p) = ?S"
    using normalizeSegments_kept [OF names, of False "[]"] by (simp add: keptSegments_def)
  show "prefix ''/'' (normalize p)"
    by (simp add: normalize_absolute [OF assms])
qed

lemma join_absolute:
  assumes "prefix ''/'' a"
  shows "pathSegments (join a b) = normalizeSegments False (keptSegments a) (split b CHR ''/'')"
    and "keptSegments (join a b) = normalizeSegments False (keptSegments a) (split b CHR ''/'')"
    and "prefix ''/'' (join a b)"
proof -
  from assms have a: "a \<noteq> []" by auto
  have ab: "prefix ''/'' (a @ ''/'' @ b)" using assms by (auto simp: prefix_def)
  have k: "keptSegments (a @ ''/'' @ b) =
             normalizeSegments False (keptSegments a) (split b CHR ''/'')"
    by (simp add: keptSegments_def split_append_sep normalizeSegments_append)
  have e: "normalizeSegments False (keptSegments a) (split [] CHR ''/'') = keptSegments a"
    by simp
  show "pathSegments (join a b) = normalizeSegments False (keptSegments a) (split b CHR ''/'')"
    using a k e pathSegments_normalize(1) [OF assms] pathSegments_normalize(1) [OF ab]
    by (cases "b = []") (simp_all add: join_def)
  show "keptSegments (join a b) = normalizeSegments False (keptSegments a) (split b CHR ''/'')"
    using a k e pathSegments_normalize(2) [OF assms] pathSegments_normalize(2) [OF ab]
    by (cases "b = []") (simp_all add: join_def)
  show "prefix ''/'' (join a b)"
    using a pathSegments_normalize(3) [OF assms] pathSegments_normalize(3) [OF ab]
    by (cases "b = []") (simp_all add: join_def)
qed

lemma resolved_segments:
  assumes "isResolved rootDir"
  shows "pathSegments rootDir = keptSegments rootDir"
  using assms pathSegments_normalize(1) [of rootDir] by (simp add: isResolved_def)

lemma no_dotdot_segment:
  assumes "\<not> includes_str urlPath ''..''"
  shows "''..'' \<notin> set (split urlPath CHR ''/'')"
  using assms split_member_infix includes_str_iff by blast

lemma join_segments:
  assumes "isResolved rootDir" and "\<not> includes_str urlPath ''..''"
  shows "pathSegments (join rootDir urlPath) =
           pathSegments rootDir @ filter (\<lambda>s. s \<noteq> [] \<and> s \<noteq> ''.'') (split urlPath CHR ''/'')"
proof -
  from assms(1) have r: "prefix ''/'' rootDir" by (simp add: isResolved_def)
  show ?thesis
    by (simp add: join_absolute(1) [OF r] resolved_segments [OF assms(1)]
          normalizeSegments_plain [OF no_dotdot_segment [OF assms(2)]])
qed

lemma join_inside:
  assumes "isResolved rootDir" and "\<not> includes_str urlPath ''..''"
  shows "isInside rootDir (join rootDir urlPath)"
proof -
  from assms(1) have r: "prefix ''/'' rootDir" by (simp add: isResolved_def)
  have "\<forall>s\<in>set (normalizeSegments False (keptSegments rootDir) (split urlPath CHR ''/'')).
          isEntryName s"
    by (rule normalizeSegments_entry_names)
       (use keptSegments_entry_names in \<open>auto dest: split_elements_no_sep\<close>)
  then have "''..'' \<notin> set (pathSegments (join rootDir urlPath))"
    by (auto simp: join_absolute(1) [OF r] isEntryName_def)
  then show ?thesis
    using join_absolute(3) [OF r, of urlPath] join_segments [OF assms]
    by (simp add: isInside_def)
qed

lemma join_entry_inside:
  assumes "isResolved rootDir" and "isInside rootDir p" and "isEntryName n"
  shows "isInside rootDir (join p n)"
proof -
  from assms(2) have p: "prefix ''/'' p"
    and pre: "prefix (pathSegments rootDir) (pathSegments p)"
    and nd: "''..'' \<notin> set (pathSegments p)"
    by (simp_all add: isInside_def)
  from nd have "''..'' \<notin> set (split p CHR ''/'')" by (auto simp: pathSegments_def)
  then have "keptSegments p = filter (\<lambda>s. s \<noteq> [] \<and> s \<noteq> ''.'') (split p CHR ''/'')"
    by (simp add: keptSegments_def normalizeSegments_plain)
  also have "\<dots> = filter (\<lambda>s. s \<noteq> ''.'') (pathSegments p)"
    by (simp add: pathSegments_def conj_commute)
  finally have kp: "keptSegments p = filter (\<lambda>s. s \<noteq> ''.'') (pathSegments p)" .
  have "\<forall>s\<in>set (pathSegments rootDir). s \<noteq> ''.''"
    using keptSegments_entry_names [of rootDir]
    by (auto simp: resolved_segments [OF assms(1)] isEntryName_def)
  then have "filter (\<lambda>s. s \<noteq> ''.'') (pathSegments rootDir) = pathSegments rootDir"
    by (auto intro!: filter_True)
  with filter_mono_prefix [OF pre, of "\<lambda>s. s \<noteq> ''.''"] kp
  have pk: "prefix (pathSegments rootDir) (keptSegments p)" by simp
  from assms(3) have "split n CHR ''/'' = [n]"
    by (simp add: isEntryName_def split_no_sep)
  with assms(3) have seg: "pathSegments (join p n) = keptSegments p @ [n]"
    by (simp add: join_absolute(1) [OF p] isEntryName_def)
  have "''..'' \<notin> set (keptSegments p)"
    using keptSegments_entry_names [of p] by (auto simp: isEntryName_def)
  with assms(3) pk seg join_absolute(3) [OF p, of n] show ?thesis
    by (auto simp: isInside_def isEntryName_def)
qed

lemma index_entry_name: "isEntryName ''index.html''"
  by (simp add: isEntryName_def)

lemma join_index_trailing_slash:
  assumes "prefix ''/'' rootDir"
  shows "join (join rootDir (urlPath @ ''/'')) ''index.html''
           = join (join rootDir urlPath) ''index.html''"
proof -
  have idx: "join p ''index.html'' = ''/'' @ joinWith ''/'' (keptSegments p @ [''index.html''])"
    if p: "prefix ''/'' p" for p
  proof -
    from p have ne: "p \<noteq> []" by auto
    have pi: "prefix ''/'' (p @ ''/index.html'')" using p by (auto simp: prefix_def)
    have "keptSegments (p @ ''/index.html'') = keptSegments p @ [''index.html'']"
      using split_append_sep [of p "CHR ''/''" "''index.html''"]
      by (simp add: keptSegments_def normalizeSegments_append)
    with ne show ?thesis
      by (simp add: join_def normalize_absolute [OF pi])
  qed
  have "keptSegments (join rootDir (urlPath @ ''/'')) = keptSegments (join rootDir urlPath)"
    using split_append_sep [of urlPath "CHR ''/''" "[]"]
    by (simp add: join_absolute(2) [OF assms] normalizeSegments_append)
  then show ?thesis
    by (simp add: idx [OF join_absolute(3) [OF assms]])
qed

lemma dirname_last_name:
  assumes "n \<noteq> []" and "CHR ''/'' \<notin> set n"
  shows "dirname (c # a @ ''/'' @ n @ replicate k CHR ''/'')
           = (if c = CHR ''/'' \<and> a = [] then ''//'' else c # a)"
proof -
  let ?p = "c # a @ ''/'' @ n @ replicate k CHR ''/''"
  have tl: "rev (tl ?p) = replicate k CHR ''/'' @ rev n @ CHR ''/'' # rev a" by simp
  from assms(1) have "last n \<in> set n" by simp
  with assms(2) have "last n \<noteq> CHR ''/''" by metis
  with assms(1) have "hd (rev n) \<noteq> CHR ''/''" "rev n \<noteq> []"
    by (simp_all add: hd_rev)
  then have "dropWhile (\<lambda>c. c = CHR ''/'') (rev n @ CHR ''/'' # rev a)
               = rev n @ CHR ''/'' # rev a"
    by (cases "rev n") auto
  then have d1: "dropWhile (\<lambda>c. c = CHR ''/'') (replicate k CHR ''/'' @ rev n @ CHR ''/'' # rev a)
                   = rev n @ CHR ''/'' # rev a"
    using dropWhile_all [of "replicate k CHR ''/''" "\<lambda>c. c = CHR ''/''"
                           "rev n @ CHR ''/'' # rev a"]
    by simp
  from assms(2) have "\<forall>x\<in>set (rev n). x \<noteq> CHR ''/''" by auto
  then have d2: "dropWhile (\<lambda>c. c \<noteq> CHR ''/'') (rev n @ CHR ''/'' # rev a) = CHR ''/'' # rev a"
    using dropWhile_all [of "rev n" "\<lambda>c. c \<noteq> CHR ''/''" "CHR ''/'' # rev a"] by simp
  show ?thesis
    unfolding dirname_def Let_def tl d1 d2 by auto
qed

lemma dirname_single_name:
  assumes "CHR ''/'' \<notin> set n"
  shows "dirname (c # n @ replicate k CHR ''/'') = (if c = CHR ''/'' then ''/'' else ''.'')"
proof -
  let ?p = "c # n @ replicate k CHR ''/''"
  have tl: "rev (tl ?p) = replicate k CHR ''/'' @ rev n" by simp
  from assms have no: "\<forall>x\<in>set (rev n). x \<noteq> CHR ''/''" by auto
  then have "dropWhile (\<lambda>c. c = CHR ''/'') (rev n) = rev n"
    by (cases "rev n") auto
  then have d1: "dropWhile (\<lambda>c. c = CHR ''/'') (replicate k CHR ''/'' @ rev n) = rev n"
    using dropWhile_all [of "replicate k CHR ''/''" "\<lambda>c. c = CHR ''/''" "rev n"] by simp
  from no have d2: "dropWhile (\<lambda>c. c \<noteq> CHR ''/'') (rev n) = []"
    by simp
  show ?thesis
    unfolding dirname_def Let_def tl d1 d2 by simp
qed

subsection \<open>Sorting\<close>

lemma insertSorted_mset: "mset (insertSorted cmp x xs) = add_mset x (mset xs)"
  by (induction xs) auto

lemma sortWith_mset: "mset (sortWith cmp xs) = mset xs"
  by (induction xs) (auto simp: sortWith_def insertSorted_mset)

lemma insertSorted_set: "set (insertSorted cmp x xs) = insert x (set xs)"
  by (induction xs) auto

lemma insertSorted_sorted:
  assumes total: "\<And>a b. cmp a b \<le> 0 \<or> cmp b a \<le> 0"
      and trans: "\<And>a b c. cmp a b \<le> 0 \<Longrightarrow> cmp b c \<le> 0 \<Longrightarrow> cmp a c \<le> 0"
      and sorted: "sorted_wrt (\<lambda>a b. cmp a b \<le> 0) xs"
  shows "sorted_wrt (\<lambda>a b. cmp a b \<le> 0) (insertSorted cmp x xs)"
  using sorted
proof (induction xs)
  case Nil
  then show ?case by simp
next
  case (Cons y ys)
  show ?case
  proof (cases "cmp x y \<le> 0")
    case True
    have "cmp x z \<le> 0" if "z \<in> set ys" for z
      using Cons.prems that True trans by auto
    with True Cons.prems show ?thesis by simp
  next
    case False
    with total have yx: "cmp y x \<le> 0" by blast
    from Cons have "sorted_wrt (\<lambda>a b. cmp a b \<le> 0) (insertSorted cmp x ys)" by simp
    with False yx Cons.prems show ?thesis by (simp add: insertSorted_set)
  qed
qed

lemma sortWith_sorted:
  assumes total: "\<And>a b. cmp a b \<le> 0 \<or> cmp b a \<le> 0"
      and trans: "\<And>a b c. cmp a b \<le> 0 \<Longrightarrow> cmp b c \<le> 0 \<Longrightarrow> cmp a c \<le> 0"
  shows "sorted_wrt (\<lambda>a b. cmp a b \<le> 0) (sortWith cmp xs)"
proof (induction xs)
  case Nil
  then show ?case by (simp add: sortWith_def)
next
  case (Cons x xs)
  have "sortWith cmp (x # xs) = insertSorted cmp x (sortWith cmp xs)"
    by (simp add: sortWith_def)
  with Cons show ?case
    using insertSorted_sorted [of cmp, OF total trans] by simp
qed

lemma compareItems_le:
  "compareItems rt a b \<le> 0 \<longleftrightarrow>
     (isDir a \<or> \<not> isDir b) \<and> (isDir a = isDir b \<longrightarrow> localeCompare rt (name a) (name b) \<le> 0)"
  by (auto simp: compareItems_def)

lemma compareItems_total:
  assumes "\<forall>a b. localeCompare rt a b \<le> 0 \<or> localeCompare rt b a \<le> 0"
  shows "compareItems rt a b \<le> 0 \<or> compareItems rt b a \<le> 0"
  using assms by (auto simp: compareItems_le)

lemma compareItems_trans:
  assumes "\<forall>a b c. localeCompare rt a b \<le> 0 \<and> localeCompare rt b c \<le> 0
             \<longrightarrow> localeCompare rt a c \<le> 0"
      and "compareItems rt a b \<le> 0" and "compareItems rt b c \<le> 0"
  shows "compareItems rt a c \<le> 0"
proof -
  from assms(2,3) have kinds: "isDir a \<or> \<not> isDir c"
    by (auto simp: compareItems_le)
  have "localeCompare rt (name a) (name c) \<le> 0" if same: "isDir a = isDir c"
  proof -
    from same assms(2,3) have "isDir a = isDir b" "isDir b = isDir c"
      by (auto simp: compareItems_le)
    with assms(2,3) have "localeCompare rt (name a) (name b) \<le> 0"
                         "localeCompare rt (name b) (name c) \<le> 0"
      by (auto simp: compareItems_le)
    with assms(1) show ?thesis by blast
  qed
  with kinds show ?thesis by (simp add: compareItems_le)
qed

subsection \<open>Reading a directory\<close>

lemma mapFiles_succeeds:
  assumes "\<forall>f\<in>set files. \<exists>s. statSync fs (join dirPath f) = Inr s"
  shows "\<exists>items. mapFiles rt fs dirPath urlPath files =
                    (map (\<lambda>f. StatSync (join dirPath f)) files, Inr items)
                 \<and> map name items = files
                 \<and> (\<forall>it\<in>set items. \<exists>s. statSync fs (join dirPath (name it)) = Inr s
                        \<and> isDir it = isDirectory s \<and> href it = join urlPath (name it))"
  using assms
proof (induction files)
  case Nil
  then show ?case by simp
next
  case (Cons f files)
  then obtain s where s: "statSync fs (join dirPath f) = Inr s" by auto
  from Cons obtain items where
    items: "mapFiles rt fs dirPath urlPath files =
              (map (\<lambda>f. StatSync (join dirPath f)) files, Inr items)"
       "map name items = files"
       "\<forall>it\<in>set items. \<exists>s. statSync fs (join dirPath (name it)) = Inr s
             \<and> isDir it = isDirectory s \<and> href it = join urlPath (name it)"
    by auto
  from s items show ?case by (simp add: Let_def)
qed

lemma mapFiles_fields:
  "mapFiles rt fs dirPath urlPath files = (calls, Inr items) \<Longrightarrow>
     map name items = files
     \<and> calls = map (\<lambda>f. StatSync (join dirPath f)) files
     \<and> (\<forall>it\<in>set items. \<exists>s. statSync fs (join dirPath (name it)) = Inr s
            \<and> isDir it = isDirectory s \<and> href it = join urlPath (name it)
            \<and> size_text it = (if isDirectory s then ''-'' else formatBytes rt (size_bytes s))
            \<and> modified it = mtime s)"
proof (induction files arbitrary: calls items)
  case Nil
  then show ?case by simp
next
  case (Cons f files)
  from Cons.prems obtain s where s: "statSync fs (join dirPath f) = Inr s"
    by (cases "statSync fs (join dirPath f)") (auto simp: Let_def)
  obtain calls' r where m: "mapFiles rt fs dirPath urlPath files = (calls', r)"
    by (cases "mapFiles rt fs dirPath urlPath files")
  with Cons.prems s obtain items' where r: "r = Inr items'"
    by (cases r) (auto simp: Let_def)
  let ?Q = "\<lambda>it. \<exists>s. statSync fs (join dirPath (name it)) = Inr s
            \<and> isDir it = isDirectory s \<and> href it = join urlPath (name it)
            \<and> size_text it = (if isDirectory s then ''-'' else formatBytes rt (size_bytes s))
            \<and> modified it = mtime s"
  let ?it = "\<lparr> name = f, href = join urlPath f, isDir = isDirectory s,
               size_text = (if isDirectory s then ''-'' else formatBytes rt (size_bytes s)),
               modified = mtime s \<rparr>"
  from Cons.IH [OF m [unfolded r]] have ih: "map name items' = files"
    "calls' = map (\<lambda>f. StatSync (join dirPath f)) files" "\<forall>it\<in>set items'. ?Q it"
    by simp_all
  from Cons.prems s m r have e: "items = ?it # items'" "calls = StatSync (join dirPath f) # calls'"
    by (simp_all add: Let_def)
  have "?Q ?it" using s by (intro exI [of _ s]) simp
  with ih e show ?case by simp
qed

lemma sortedItems_succeeds:
  assumes "readdirSync fs dirPath = Inr files"
      and "\<forall>f\<in>set files. \<exists>s. statSync fs (join dirPath f) = Inr s"
  shows "\<exists>items0. mapFiles rt fs dirPath urlPath files =
                     (map (\<lambda>f. StatSync (join dirPath f)) files, Inr items0)
           \<and> sortedItems rt fs dirPath urlPath =
               (ReaddirSync dirPath # map (\<lambda>f. StatSync (join dirPath f)) files,
                Inr (sortWith (compareItems rt) items0))"
proof -
  from mapFiles_succeeds [OF assms(2), of rt urlPath] obtain items0 where
    "mapFiles rt fs dirPath urlPath files =
       (map (\<lambda>f. StatSync (join dirPath f)) files, Inr items0)"
    by blast
  with assms(1) show ?thesis by (simp add: sortedItems_def)
qed

lemma mapFiles_calls:
  "c \<in> set (fst (mapFiles rt fs dirPath urlPath files)) \<Longrightarrow>
     \<exists>f\<in>set files. c = StatSync (join dirPath f)"
  by (induction files) (auto simp: Let_def split: sum.splits prod.splits)

lemma generateDirectoryListing_calls:
  assumes "c \<in> set (fst (generateDirectoryListing rt fs dirPath urlPath))"
  shows "c = ReaddirSync dirPath
         \<or> (\<exists>files. readdirSync fs dirPath = Inr files
               \<and> (\<exists>f\<in>set files. c = StatSync (join dirPath f)))"
proof (cases "readdirSync fs dirPath")
  case (Inl e)
  with assms show ?thesis
    by (simp add: generateDirectoryListing_def sortedItems_def)
next
  case (Inr files)
  with assms have "c = ReaddirSync dirPath
                   \<or> c \<in> set (fst (mapFiles rt fs dirPath urlPath files))"
    by (auto simp: generateDirectoryListing_def sortedItems_def split: prod.splits sum.splits)
  with Inr show ?thesis using mapFiles_calls by blast
qed

lemma listing_succeeds:
  assumes "readdirSync fs dirPath = Inr files"
      and "\<forall>f\<in>set files. \<exists>s. statSync fs (join dirPath f) = Inr s"
  shows "\<exists>calls html. generateDirectoryListing rt fs dirPath urlPath = (calls, Inr html)"
proof -
  from mapFiles_succeeds [OF assms(2), of rt urlPath] obtain items where
    "mapFiles rt fs dirPath urlPath files =
       (map (\<lambda>f. StatSync (join dirPath f)) files, Inr items)"
    by blast
  with assms(1) show ?thesis
    by (simp add: generateDirectoryListing_def sortedItems_def)
qed

subsection \<open>The text of the page\<close>

lemma renderRow_text:
  \<open>renderRow rt = (\<lambda>it. ''\<newline>''
                       @ ''    <tr>\<newline>''
                       @ ''      <td><a href="'' @ href it @ ''">''
                       @ (if isDir it then [CHR 0xF0, CHR 0x9F, CHR 0x93, CHR 0x81]
                          else [CHR 0xF0, CHR 0x9F, CHR 0x93, CHR 0x84])
                       @ '' '' @ name it @ (if isDir it then ''/'' else [])
                       @ ''</a></td>\<newline>''
                       @ ''      <td>'' @ size_text it @ ''</td>\<newline>''
                       @ ''      <td>'' @ toLocaleString rt (modified it) @ ''</td>\<newline>''
                       @ ''    </tr>\<newline>''
                       @ ''  '')\<close>
  by (rule ext) (simp add: renderRow_def folderIcon_def fileIcon_def)

lemma parentOf_text:
  \<open>parentOf urlPath = (if urlPath = ''/'' then []
                 else ''<tr><td><a href="'' @ dirname urlPath @ ''">''
                      @ [CHR 0xF0, CHR 0x9F, CHR 0x93, CHR 0x81]
                      @ '' ..</a></td><td>-</td><td>-</td></tr>'')\<close>
  by (simp add: parentOf_def parentRow_def folderIcon_def)

lemma renderRows_text:
  \<open>renderRows rt items = concat (map (\<lambda>it. ''\<newline>''
                       @ ''    <tr>\<newline>''
                       @ ''      <td><a href="'' @ href it @ ''">''
                       @ (if isDir it then [CHR 0xF0, CHR 0x9F, CHR 0x93, CHR 0x81]
                          else [CHR 0xF0, CHR 0x9F, CHR 0x93, CHR 0x84])
                       @ '' '' @ name it @ (if isDir it then ''/'' else [])
                       @ ''</a></td>\<newline>''
                       @ ''      <td>'' @ size_text it @ ''</td>\<newline>''
                       @ ''      <td>'' @ toLocaleString rt (modified it) @ ''</td>\<newline>''
                       @ ''    </tr>\<newline>''
                       @ ''  '') items)\<close>
  by (simp add: renderRows_def joinWith_empty_sep renderRow_text)

subsection \<open>The handler, case by case\<close>

lemma handler_rejects:
  assumes "decodeURIComponent (first (split url CHR ''?'')) = Inr urlPath"
      and "includes_str urlPath ''..''"
  shows "handler rt fs rootDir url =
           ([], Inr \<lparr> status = 403, contentType = ''text/plain'', body = ''403 Forbidden'' \<rparr>)"
  using assms by (simp add: handler_def)

lemma handler_accepted:
  assumes "decodeURIComponent (first (split url CHR ''?'')) = Inr urlPath"
      and "\<not> includes_str urlPath ''..''"
      and "CHR 0x00 \<notin> set (join rootDir urlPath)"
  shows "handler rt fs rootDir url =
     (let filePath = join rootDir urlPath
      in case stat fs filePath of
                  Inl err \<Rightarrow>
                    ([Stat filePath],
                     Inr \<lparr> status = 404, contentType = ''text/plain'', body = ''404 Not Found'' \<rparr>)
                | Inr st \<Rightarrow>
                    if isDirectory st then
                      (let indexPath = join filePath ''index.html''
                       in if existsSync fs indexPath then
                            (case readFile fs indexPath of
                               Inl err \<Rightarrow>
                                 ([Stat filePath, ExistsSync indexPath, ReadFile indexPath],
                                  Inr \<lparr> status = 500, contentType = ''text/plain'',
                                        body = ''500 Internal Server Error'' \<rparr>)
                             | Inr data \<Rightarrow>
                                 ([Stat filePath, ExistsSync indexPath, ReadFile indexPath],
                                  Inr \<lparr> status = 200, contentType = ''text/html'', body = data \<rparr>))
                          else
                            (case generateDirectoryListing rt fs filePath urlPath of
                               (calls, Inl e) \<Rightarrow>
                                 (Stat filePath # ExistsSync indexPath # calls, Inl e)
                             | (calls, Inr html) \<Rightarrow>
                                 (Stat filePath # ExistsSync indexPath # calls,
                                  Inr \<lparr> status = 200, contentType = ''text/html'', body = html \<rparr>)))
                    else
                      (let ext = toLowerCase (extname filePath);
                           mimeType = mimeTypeOf ext
                       in case readFile fs filePath of
                            Inl err \<Rightarrow>
                              ([Stat filePath, ReadFile filePath],
                               Inr \<lparr> status = 500, contentType = ''text/plain'',
                                     body = ''500 Internal Server Error'' \<rparr>)
                          | Inr data \<Rightarrow>
                              ([Stat filePath, ReadFile filePath],
                               Inr \<lparr> status = 200, contentType = mimeType, body = data \<rparr>)))"
  using assms by (simp add: handler_def Let_def)

lemma handler_calls:
  assumes "c \<in> set (fst (handler rt fs rootDir url))"
  shows "\<exists>urlPath. decodeURIComponent (first (split url CHR ''?'')) = Inr urlPath
           \<and> \<not> includes_str urlPath ''..''
           \<and> (call_path c = join rootDir urlPath
               \<or> call_path c = join (join rootDir urlPath) ''index.html''
               \<or> (\<exists>files. readdirSync fs (join rootDir urlPath) = Inr files
                     \<and> (\<exists>f\<in>set files. call_path c = join (join rootDir urlPath) f)))"
proof (cases "decodeURIComponent (first (split url CHR ''?''))")
  case (Inl e)
  with assms show ?thesis by (simp add: handler_def)
next
  case (Inr urlPath)
  let ?F = "join rootDir urlPath"
  show ?thesis
  proof (cases "includes_str urlPath ''..'' \<or> CHR 0x00 \<in> set ?F")
    case True
    with assms Inr show ?thesis by (auto simp: handler_def Let_def split: if_splits)
  next
    case False
    with assms Inr have
      "call_path c = ?F \<or> call_path c = join ?F ''index.html''
       \<or> c \<in> set (fst (generateDirectoryListing rt fs ?F urlPath))"
      by (auto simp: handler_accepted Let_def split: sum.splits if_splits prod.splits)
    then have "call_path c = ?F \<or> call_path c = join ?F ''index.html''
       \<or> (\<exists>files. readdirSync fs ?F = Inr files
              \<and> (\<exists>f\<in>set files. call_path c = join ?F f))"
    proof (elim disjE)
      assume "c \<in> set (fst (generateDirectoryListing rt fs ?F urlPath))"
      from generateDirectoryListing_calls [OF this] show ?thesis by auto
    qed simp_all
    with Inr False show ?thesis by blast
  qed
qed

text \<open>
  When the request path decodes, the resolved path has no NUL character and,
  where a listing is generated, the directory can be read and every child can be
  queried, a response is written.
\<close>

lemma handler_responds:
  assumes "decodeURIComponent (first (split url CHR ''?'')) = Inr urlPath"
      and "CHR 0x00 \<notin> set (join rootDir urlPath)"
      and "\<forall>st. stat fs (join rootDir urlPath) = Inr st \<and> isDirectory st
                 \<and> \<not> existsSync fs (join (join rootDir urlPath) ''index.html'')
             \<longrightarrow> (\<exists>files. readdirSync fs (join rootDir urlPath) = Inr files
                   \<and> (\<forall>f\<in>set files. \<exists>s. statSync fs (join (join rootDir urlPath) f) = Inr s))"
  shows "\<exists>calls r. handler rt fs rootDir url = (calls, Inr r)
           \<and> status r \<in> {200, 403, 404, 500}"
proof (cases "includes_str urlPath ''..''")
  case True
  with assms(1) show ?thesis by (simp add: handler_rejects)
next
  case False
  note acc = handler_accepted [OF assms(1) False assms(2), of rt fs]
  show ?thesis
  proof (cases "stat fs (join rootDir urlPath)")
    case (Inl err)
    then show ?thesis by (simp add: acc)
  next
    case (Inr st)
    show ?thesis
    proof (cases "isDirectory st")
      case False
      with Inr show ?thesis by (simp add: acc Let_def split: sum.splits)
    next
      case True
      show ?thesis
      proof (cases "existsSync fs (join (join rootDir urlPath) ''index.html'')")
        case True
        with Inr \<open>isDirectory st\<close> show ?thesis
          by (simp add: acc Let_def split: sum.splits)
      next
        case False
        with assms(3) Inr True obtain files where
          "readdirSync fs (join rootDir urlPath) = Inr files"
          "\<forall>f\<in>set files. \<exists>s. statSync fs (join (join rootDir urlPath) f) = Inr s"
          by blast
        from listing_succeeds [OF this, of rt urlPath] obtain calls html where
          "generateDirectoryListing rt fs (join rootDir urlPath) urlPath = (calls, Inr html)"
          by blast
        with Inr True False show ?thesis by (simp add: acc Let_def)
      qed
    qed
  qed
qed

subsection \<open>The table of content types\<close>











subsection \<open>The example site\<close>

lemma compareBytes_total: "compareBytes a b \<le> 0 \<or> compareBytes b a \<le> 0"
  by (induction a b rule: compareBytes.induct) auto

lemma compareBytes_trans:
  "compareBytes a b \<le> 0 \<Longrightarrow> compareBytes b c \<le> 0 \<Longrightarrow> compareBytes a c \<le> 0"
proof (induction a arbitrary: b c)
  case Nil
  then show ?case by (cases c) auto
next
  case (Cons x xs)
  then obtain y ys where b: "b = y # ys" by (cases b) auto
  with Cons.prems obtain z zs where c: "c = z # zs" by (cases c) auto
  from Cons.prems Cons.IH [of ys zs] show ?case
    unfolding b c by (auto split: if_splits)
qed

lemma example_facts:
  "decodeURIComponent (first (split ''/pics'' CHR ''?'')) = Inr ''/pics''"
  "\<not> includes_str ''/pics'' ''..''"
  "join ''/srv/www'' ''/pics'' = ''/srv/www/pics''"
  "CHR 0x00 \<notin> set ''/srv/www/pics''"
  "stat exampleFs ''/srv/www/pics'' = Inr dirStats"
  "isDirectory dirStats"
  "join ''/srv/www/pics'' ''index.html'' = ''/srv/www/pics/index.html''"
  "\<not> existsSync exampleFs ''/srv/www/pics/index.html''"
  "readdirSync exampleFs ''/srv/www/pics'' =
     Inr [''banana.txt'', ''cherry'', ''Apple'', ''apple.txt'']"
  "statSync exampleFs (join ''/srv/www/pics'' ''banana.txt'') = Inr fileStats"
  "statSync exampleFs (join ''/srv/www/pics'' ''cherry'') = Inr dirStats"
  "statSync exampleFs (join ''/srv/www/pics'' ''Apple'') = Inr dirStats"
  "statSync exampleFs (join ''/srv/www/pics'' ''apple.txt'') = Inr fileStats"
  by code_simp+

lemma example_child_paths:
  "join ''/srv/www/pics'' ''banana.txt'' = ''/srv/www/pics/banana.txt''"
  "join ''/srv/www/pics'' ''cherry'' = ''/srv/www/pics/cherry''"
  "join ''/srv/www/pics'' ''Apple'' = ''/srv/www/pics/Apple''"
  "join ''/srv/www/pics'' ''apple.txt'' = ''/srv/www/pics/apple.txt''"
  by code_simp+

lemma example_runtime_compare: "localeCompare exampleRuntime = compareBytes"
  by (simp add: exampleRuntime_def)

lemma example_entry_names: "entryNamesOnly exampleFs"
  by (auto simp: entryNamesOnly_def exampleFs_def isEntryName_def split: if_splits)

lemma example_root_resolved: "isResolved ''/srv/www''"
  unfolding isResolved_def by code_simp

lemma example_pics_items:
  "sortedItems exampleRuntime exampleFs ''/srv/www/pics'' ''/pics'' =
     ([ReaddirSync ''/srv/www/pics'', StatSync ''/srv/www/pics/banana.txt'',
       StatSync ''/srv/www/pics/cherry'', StatSync ''/srv/www/pics/Apple'',
       StatSync ''/srv/www/pics/apple.txt''],
      Inr [\<lparr> name = ''Apple'', href = ''/pics/Apple'', isDir = True,
              size_text = ''-'', modified = 0 \<rparr>,
           \<lparr> name = ''cherry'', href = ''/pics/cherry'', isDir = True,
              size_text = ''-'', modified = 0 \<rparr>,
           \<lparr> name = ''apple.txt'', href = ''/pics/apple.txt'', isDir = False,
              size_text = ''5 B'', modified = 0 \<rparr>,
           \<lparr> name = ''banana.txt'', href = ''/pics/banana.txt'', isDir = False,
              size_text = ''5 B'', modified = 0 \<rparr>])"
  by code_simp

lemma example_root_items:
  "sortedItems exampleRuntime exampleFs ''/srv/www/'' ''/'' =
     ([ReaddirSync ''/srv/www/'', StatSync ''/srv/www/notes.TXT'', StatSync ''/srv/www/docs'',
       StatSync ''/srv/www/broken'', StatSync ''/srv/www/pics''],
      Inr [\<lparr> name = ''broken'', href = ''/broken'', isDir = True,
              size_text = ''-'', modified = 0 \<rparr>,
           \<lparr> name = ''docs'', href = ''/docs'', isDir = True,
              size_text = ''-'', modified = 0 \<rparr>,
           \<lparr> name = ''pics'', href = ''/pics'', isDir = True,
              size_text = ''-'', modified = 0 \<rparr>,
           \<lparr> name = ''notes.TXT'', href = ''/notes.TXT'', isDir = False,
              size_text = ''5 B'', modified = 0 \<rparr>])"
  by code_simp

lemma example_apple_items:
  "sortedItems exampleRuntime exampleFs ''/srv/www/pics/Apple'' ''/pics/Apple'' =
     ([ReaddirSync ''/srv/www/pics/Apple''], Inr [])"
  by code_simp

lemma example_apple_slash_items:
  "sortedItems exampleRuntime exampleFs ''/srv/www/pics/Apple/'' ''/pics/Apple/'' =
     ([ReaddirSync ''/srv/www/pics/Apple/''], Inr [])"
  by code_simp

section \<open>The claims\<close>

text \<open>
  Claim C1. A request whose path, with the query string removed and the escapes
  decoded, has a segment \<^verbatim>\<open>..\<close> between its slashes is answered with 403 and
  \<^verbatim>\<open>text/plain\<close>, whatever the file system holds: the answer is the same for
  every file system and every root directory, and no call of the file system is made.
\<close>

theorem traversal_segment_rejected:
  assumes "decodeURIComponent (first (split url CHR ''?'')) = Inr urlPath"
      and "''..'' \<in> set (split urlPath CHR ''/'')"
  shows "handler rt fs rootDir url =
           ([], Inr \<lparr> status = 403, contentType = ''text/plain'', body = ''403 Forbidden'' \<rparr>)"
proof -
  from assms(2) have "includes_str urlPath ''..''"
    using split_member_infix includes_str_iff by blast
  with assms(1) show ?thesis by (rule handler_rejects)
qed

theorem traversal_segment_rejected_witness:
  "decodeURIComponent (first (split ''/a/%2e%2e/secret?x=1'' CHR ''?'')) = Inr ''/a/../secret''
   \<and> ''..'' \<in> set (split ''/a/../secret'' CHR ''/'')
   \<and> handler exampleRuntime exampleFs ''/srv/www'' ''/a/%2e%2e/secret?x=1'' =
       ([], Inr \<lparr> status = 403, contentType = ''text/plain'', body = ''403 Forbidden'' \<rparr>)"
proof -
  have d: "decodeURIComponent (first (split ''/a/%2e%2e/secret?x=1'' CHR ''?''))
             = Inr ''/a/../secret''"
    by code_simp
  have s: "''..'' \<in> set (split ''/a/../secret'' CHR ''/'')"
    by code_simp
  from d s traversal_segment_rejected [OF d s, of exampleRuntime exampleFs "''/srv/www''"]
  show ?thesis by simp
qed

text \<open>
  Claim C2, as amended. When the query of the resolved path fails, for whatever
  reason (the entry does not exist, permission is denied, an input or output
  failure), the answer is 404 Not Found.
\<close>

theorem stat_failure_is_not_found:
  assumes "decodeURIComponent (first (split url CHR ''?'')) = Inr urlPath"
      and "\<not> includes_str urlPath ''..''"
      and "CHR 0x00 \<notin> set (join rootDir urlPath)"
      and "stat fs (join rootDir urlPath) = Inl err"
  shows "handler rt fs rootDir url =
           ([Stat (join rootDir urlPath)],
            Inr \<lparr> status = 404, contentType = ''text/plain'', body = ''404 Not Found'' \<rparr>)"
  using assms by (simp add: handler_accepted)

theorem stat_failure_is_not_found_witness:
  "stat exampleFs (join ''/srv/www'' ''/private'') = Inl EACCES
   \<and> handler exampleRuntime exampleFs ''/srv/www'' ''/private'' =
       ([Stat (join ''/srv/www'' ''/private'')],
        Inr \<lparr> status = 404, contentType = ''text/plain'', body = ''404 Not Found'' \<rparr>)"
proof -
  have d: "decodeURIComponent (first (split ''/private'' CHR ''?'')) = Inr ''/private''"
    by code_simp
  have i: "\<not> includes_str ''/private'' ''..''"
    by code_simp
  have n: "CHR 0x00 \<notin> set (join ''/srv/www'' ''/private'')"
    by code_simp
  have s: "stat exampleFs (join ''/srv/www'' ''/private'') = Inl EACCES"
    by code_simp
  from s stat_failure_is_not_found [OF d i n s, of exampleRuntime] show ?thesis by simp
qed

text \<open>
  The claim as stated fails: the query of \<^verbatim>\<open>/srv/www/private\<close> fails with
  \<^verbatim>\<open>EACCES\<close>, and the answer is 404, not 500.
\<close>

theorem permission_denied_counterexample:
  "stat exampleFs (join ''/srv/www'' ''/private'') = Inl EACCES
   \<and> EACCES \<noteq> ENOENT
   \<and> snd (handler exampleRuntime exampleFs ''/srv/www'' ''/private'') =
       Inr \<lparr> status = 404, contentType = ''text/plain'', body = ''404 Not Found'' \<rparr>
   \<and> snd (handler exampleRuntime exampleFs ''/srv/www'' ''/private'') \<noteq>
       Inr \<lparr> status = 500, contentType = ''text/plain'',
             body = ''500 Internal Server Error'' \<rparr>"
  by code_simp

text \<open>
  Claim C3. Let the root directory be an absolute path in normal form and let
  the directories of the file system hold entry names only. For a request that
  is not rejected, the path joined from the root directory and the decoded
  request path lies inside the root directory: its names are the names of the
  root directory followed by the names of the request path. Every path that a
  call of the file system is given, for any request, lies inside the root
  directory. Links of the file system are outside this model.
\<close>

theorem resolved_path_inside_root:
  assumes "isResolved rootDir" and "entryNamesOnly fs"
  shows "(decodeURIComponent (first (split url CHR ''?'')) = Inr urlPath
            \<and> \<not> includes_str urlPath ''..''
          \<longrightarrow> isInside rootDir (join rootDir urlPath)
              \<and> pathSegments (join rootDir urlPath) =
                  pathSegments rootDir
                  @ filter (\<lambda>s. s \<noteq> [] \<and> s \<noteq> ''.'') (split urlPath CHR ''/''))
         \<and> (\<forall>c\<in>set (fst (handler rt fs rootDir url)). isInside rootDir (call_path c))"
proof (intro conjI impI ballI)
  assume "decodeURIComponent (first (split url CHR ''?'')) = Inr urlPath
            \<and> \<not> includes_str urlPath ''..''"
  then have n: "\<not> includes_str urlPath ''..''" by simp
  show "isInside rootDir (join rootDir urlPath)"
    using assms(1) n by (rule join_inside)
  show "pathSegments (join rootDir urlPath) =
          pathSegments rootDir @ filter (\<lambda>s. s \<noteq> [] \<and> s \<noteq> ''.'') (split urlPath CHR ''/'')"
    using assms(1) n by (rule join_segments)
next
  fix c
  assume "c \<in> set (fst (handler rt fs rootDir url))"
  from handler_calls [OF this] obtain p where
    n: "\<not> includes_str p ''..''" and
    c: "call_path c = join rootDir p
        \<or> call_path c = join (join rootDir p) ''index.html''
        \<or> (\<exists>files. readdirSync fs (join rootDir p) = Inr files
              \<and> (\<exists>f\<in>set files. call_path c = join (join rootDir p) f))"
    by blast
  have F: "isInside rootDir (join rootDir p)"
    using assms(1) n by (rule join_inside)
  from c show "isInside rootDir (call_path c)"
  proof (elim disjE exE conjE bexE)
    assume "call_path c = join rootDir p"
    with F show ?thesis by simp
  next
    assume "call_path c = join (join rootDir p) ''index.html''"
    with join_entry_inside [OF assms(1) F index_entry_name] show ?thesis by simp
  next
    fix files f
    assume "readdirSync fs (join rootDir p) = Inr files" "f \<in> set files"
       and cp: "call_path c = join (join rootDir p) f"
    with assms(2) have "isEntryName f" by (auto simp: entryNamesOnly_def)
    with join_entry_inside [OF assms(1) F] cp show ?thesis by simp
  qed
qed

theorem resolved_path_inside_root_witness:
  "isInside ''/srv/www'' (join ''/srv/www'' ''/pics'')
   \<and> pathSegments (join ''/srv/www'' ''/pics'') = [''srv'', ''www'', ''pics'']
   \<and> list_all (\<lambda>c. isInside ''/srv/www'' (call_path c))
         (fst (handler exampleRuntime exampleFs ''/srv/www'' ''/pics''))"
proof -
  have p: "pathSegments ''/srv/www'' = [''srv'', ''www'']"
    by code_simp
  have f: "filter (\<lambda>s. s \<noteq> [] \<and> s \<noteq> ''.'') (split ''/pics'' CHR ''/'') = [''pics'']"
    by code_simp
  from resolved_path_inside_root [OF example_root_resolved example_entry_names,
            of "''/pics''" "''/pics''" exampleRuntime]
       example_facts(1,2)
  show ?thesis
    by (simp add: p f list_all_iff)
qed

text \<open>
  Claim C4. The handler does not turn every failure into a response. On the
  example site the request for the unreadable directory \<^verbatim>\<open>locked\<close> throws the
  error of \<^verbatim>\<open>readdirSync\<close> out of the callback of \<^verbatim>\<open>fs.stat\<close>, and the request
  for \<^verbatim>\<open>stale\<close> throws the error of \<^verbatim>\<open>statSync\<close>; the requests \<^verbatim>\<open>/%\<close> and
  \<^verbatim>\<open>/%FF\<close> throw \<^verbatim>\<open>URIError\<close> and the request \<^verbatim>\<open>/%00\<close> throws
  \<^verbatim>\<open>ERR_INVALID_ARG_VALUE\<close> before any call of the file system. None of these
  runs writes a response, where the claim has one of the outcomes 200, 403, 404
  and 500; a failed \<^verbatim>\<open>readFile\<close>, in the neighbouring branches, is answered with
  500.
\<close>

theorem uncaught_exceptions:
  "handler exampleRuntime exampleFs ''/srv/www'' ''/locked'' =
     ([Stat ''/srv/www/locked'', ExistsSync ''/srv/www/locked/index.html'',
       ReaddirSync ''/srv/www/locked''],
      Inl (FsError EACCES))
   \<and> handler exampleRuntime exampleFs ''/srv/www'' ''/stale'' =
     ([Stat ''/srv/www/stale'', ExistsSync ''/srv/www/stale/index.html'',
       ReaddirSync ''/srv/www/stale'', StatSync ''/srv/www/stale/gone''],
      Inl (FsError ENOENT))
   \<and> handler exampleRuntime exampleFs ''/srv/www'' ''/%'' = ([], Inl URIError)
   \<and> handler exampleRuntime exampleFs ''/srv/www'' ''/%FF'' = ([], Inl URIError)
   \<and> handler exampleRuntime exampleFs ''/srv/www'' ''/%00'' = ([], Inl ERR_INVALID_ARG_VALUE)"
  by code_simp



text \<open>
  Claim C6. A request for a directory in which \<^verbatim>\<open>index.html\<close> exists is answered
  with the content of that file, 200 and \<^verbatim>\<open>text/html\<close>; when the file cannot be
  read the answer is 500. In both cases the directory is not read: the calls are
  the query of the path, the test for the index file and its reading. The index
  file is the same for the request path with and without a slash at its end.
\<close>

theorem directory_index_served:
  assumes "decodeURIComponent (first (split url CHR ''?'')) = Inr urlPath"
      and "\<not> includes_str urlPath ''..''"
      and "CHR 0x00 \<notin> set (join rootDir urlPath)"
      and "stat fs (join rootDir urlPath) = Inr st"
      and "isDirectory st"
      and "existsSync fs (join (join rootDir urlPath) ''index.html'')"
  shows "handler rt fs rootDir url =
           ([Stat (join rootDir urlPath),
             ExistsSync (join (join rootDir urlPath) ''index.html''),
             ReadFile (join (join rootDir urlPath) ''index.html'')],
            (case readFile fs (join (join rootDir urlPath) ''index.html'') of
               Inr content \<Rightarrow>
                 Inr \<lparr> status = 200, contentType = ''text/html'', body = content \<rparr>
             | Inl err \<Rightarrow>
                 Inr \<lparr> status = 500, contentType = ''text/plain'',
                       body = ''500 Internal Server Error'' \<rparr>))
         \<and> (prefix ''/'' rootDir \<longrightarrow>
              join (join rootDir (urlPath @ ''/'')) ''index.html''
                = join (join rootDir urlPath) ''index.html'')"
  using assms
  by (simp add: handler_accepted Let_def join_index_trailing_slash split: sum.splits)

theorem directory_index_served_witness:
  "handler exampleRuntime exampleFs ''/srv/www'' ''/docs/'' =
       ([Stat ''/srv/www/docs/'', ExistsSync ''/srv/www/docs/index.html'',
         ReadFile ''/srv/www/docs/index.html''],
        Inr \<lparr> status = 200, contentType = ''text/html'', body = ''<h1>Docs</h1>'' \<rparr>)
   \<and> handler exampleRuntime exampleFs ''/srv/www'' ''/broken'' =
       ([Stat ''/srv/www/broken'', ExistsSync ''/srv/www/broken/index.html'',
         ReadFile ''/srv/www/broken/index.html''],
        Inr \<lparr> status = 500, contentType = ''text/plain'',
              body = ''500 Internal Server Error'' \<rparr>)"
proof -
  have d: "decodeURIComponent (first (split ''/docs/'' CHR ''?'')) = Inr ''/docs/''"
          "decodeURIComponent (first (split ''/broken'' CHR ''?'')) = Inr ''/broken''"
    by code_simp+
  have i: "\<not> includes_str ''/docs/'' ''..''" "\<not> includes_str ''/broken'' ''..''"
    by code_simp+
  have j: "join ''/srv/www'' ''/docs/'' = ''/srv/www/docs/''"
          "join ''/srv/www'' ''/broken'' = ''/srv/www/broken''"
          "join ''/srv/www/docs/'' ''index.html'' = ''/srv/www/docs/index.html''"
          "join ''/srv/www/broken'' ''index.html'' = ''/srv/www/broken/index.html''"
    by code_simp+
  have n: "CHR 0x00 \<notin> set (join ''/srv/www'' ''/docs/'')"
          "CHR 0x00 \<notin> set (join ''/srv/www'' ''/broken'')"
    by code_simp+
  have s: "stat exampleFs (join ''/srv/www'' ''/docs/'') = Inr dirStats"
          "stat exampleFs (join ''/srv/www'' ''/broken'') = Inr dirStats"
    by code_simp+
  have f: "isDirectory dirStats"
    by code_simp
  have e: "existsSync exampleFs (join (join ''/srv/www'' ''/docs/'') ''index.html'')"
          "existsSync exampleFs (join (join ''/srv/www'' ''/broken'') ''index.html'')"
    by code_simp+
  have r: "readFile exampleFs ''/srv/www/docs/index.html'' = Inr ''<h1>Docs</h1>''"
          "readFile exampleFs ''/srv/www/broken/index.html'' = Inl EACCES"
    by code_simp+
  from directory_index_served [OF d(1) i(1) n(1) s(1) f e(1), of exampleRuntime]
       directory_index_served [OF d(2) i(2) n(2) s(2) f e(2), of exampleRuntime]
  show ?thesis by (simp add: j r)
qed

text \<open>
  Claim C7. A request for a directory without \<^verbatim>\<open>index.html\<close>, which can be read
  and whose children can all be queried, is answered with 200, \<^verbatim>\<open>text/html\<close>
  and the page written out below: after the fixed text and the parent row come
  the rows of the items, one after the other, each with the link, the icon, the
  name, the size and the date of its item. The directory is read once and each
  child is queried once. The names of the items are the names of the children,
  each once, and every item carries what the query of its child gave; no file
  comes before a directory, and two items of the same kind are in the order of
  \<^verbatim>\<open>localeCompare\<close>, which is taken to be a total preorder. On the example site
  the children \<^verbatim>\<open>banana.txt\<close>, \<^verbatim>\<open>cherry\<close>, \<^verbatim>\<open>Apple\<close>, \<^verbatim>\<open>apple.txt\<close> are listed
  as \<^verbatim>\<open>Apple\<close>, \<^verbatim>\<open>cherry\<close>, \<^verbatim>\<open>apple.txt\<close>, \<^verbatim>\<open>banana.txt\<close>.
\<close>

theorem listing_sorted:
  assumes "decodeURIComponent (first (split url CHR ''?'')) = Inr urlPath"
      and "\<not> includes_str urlPath ''..''"
      and "CHR 0x00 \<notin> set (join rootDir urlPath)"
      and "stat fs (join rootDir urlPath) = Inr st"
      and "isDirectory st"
      and "\<not> existsSync fs (join (join rootDir urlPath) ''index.html'')"
      and "readdirSync fs (join rootDir urlPath) = Inr files"
      and "\<forall>f\<in>set files. \<exists>s. statSync fs (join (join rootDir urlPath) f) = Inr s"
      and "\<forall>a b. localeCompare rt a b \<le> 0 \<or> localeCompare rt b a \<le> 0"
      and "\<forall>a b c. localeCompare rt a b \<le> 0 \<and> localeCompare rt b c \<le> 0
             \<longrightarrow> localeCompare rt a c \<le> 0"
  shows \<open>\<exists>items.
           sortedItems rt fs (join rootDir urlPath) urlPath =
             (ReaddirSync (join rootDir urlPath)
              # map (\<lambda>f. StatSync (join (join rootDir urlPath) f)) files,
              Inr items)
           \<and> handler rt fs rootDir url =
             ([Stat (join rootDir urlPath),
               ExistsSync (join (join rootDir urlPath) ''index.html''),
               ReaddirSync (join rootDir urlPath)]
              @ map (\<lambda>f. StatSync (join (join rootDir urlPath) f)) files,
              Inr \<lparr> status = 200, contentType = ''text/html'',
                    body =
                      pageStart @ urlPath @ pageTitleEnd @ urlPath @ pageHeadingEnd
                      @ join rootDir urlPath @ pagePathEnd
                      @ (if urlPath = ''/'' then []
                         else ''<tr><td><a href="'' @ dirname urlPath @ ''">''
                              @ [CHR 0xF0, CHR 0x9F, CHR 0x93, CHR 0x81]
                              @ '' ..</a></td><td>-</td><td>-</td></tr>'')
                      @ pageBetween
                      @ concat (map (\<lambda>it. ''\<newline>''
                       @ ''    <tr>\<newline>''
                       @ ''      <td><a href="'' @ href it @ ''">''
                       @ (if isDir it then [CHR 0xF0, CHR 0x9F, CHR 0x93, CHR 0x81]
                          else [CHR 0xF0, CHR 0x9F, CHR 0x93, CHR 0x84])
                       @ '' '' @ name it @ (if isDir it then ''/'' else [])
                       @ ''</a></td>\<newline>''
                       @ ''      <td>'' @ size_text it @ ''</td>\<newline>''
                       @ ''      <td>'' @ toLocaleString rt (modified it) @ ''</td>\<newline>''
                       @ ''    </tr>\<newline>''
                       @ ''  '') items)
                      @ pageEnd \<rparr>)
           \<and> mset (map name items) = mset files
           \<and> sorted_wrt (\<lambda>a b. (isDir a \<or> \<not> isDir b)
                  \<and> (isDir a = isDir b \<longrightarrow> localeCompare rt (name a) (name b) \<le> 0)) items
           \<and> (\<forall>it\<in>set items. \<exists>s. statSync fs (join (join rootDir urlPath) (name it)) = Inr s
                  \<and> isDir it = isDirectory s \<and> href it = join urlPath (name it)
                  \<and> size_text it
                      = (if isDirectory s then ''-'' else formatBytes rt (size_bytes s))
                  \<and> modified it = mtime s)\<close>
proof -
  let ?D = "join rootDir urlPath"
  from sortedItems_succeeds [OF assms(7,8), of rt urlPath] obtain items0 where
    m: "mapFiles rt fs ?D urlPath files = (map (\<lambda>f. StatSync (join ?D f)) files, Inr items0)"
    and si: "sortedItems rt fs ?D urlPath =
               (ReaddirSync ?D # map (\<lambda>f. StatSync (join ?D f)) files,
                Inr (sortWith (compareItems rt) items0))"
    by blast
  from mapFiles_fields [OF m] have n: "map name items0 = files"
    and p: "\<forall>it\<in>set items0. \<exists>s. statSync fs (join ?D (name it)) = Inr s
               \<and> isDir it = isDirectory s \<and> href it = join urlPath (name it)
               \<and> size_text it = (if isDirectory s then ''-'' else formatBytes rt (size_bytes s))
               \<and> modified it = mtime s"
    by simp_all
  let ?items = "sortWith (compareItems rt) items0"
  have ms: "mset ?items = mset items0" by (rule sortWith_mset)
  have "mset (map name ?items) = mset (map name items0)"
    using ms by (metis mset_map)
  with n have c1: "mset (map name ?items) = mset files" by simp
  have "sorted_wrt (\<lambda>a b. compareItems rt a b \<le> 0) ?items"
    by (rule sortWith_sorted) (use assms(9,10) compareItems_total compareItems_trans in blast)+
  then have c2: "sorted_wrt (\<lambda>a b. (isDir a \<or> \<not> isDir b)
                  \<and> (isDir a = isDir b \<longrightarrow> localeCompare rt (name a) (name b) \<le> 0)) ?items"
    by (simp add: compareItems_le)
  from ms have "set ?items = set items0" by (rule mset_eq_setD)
  with p have c3: "\<forall>it\<in>set ?items. \<exists>s. statSync fs (join ?D (name it)) = Inr s
               \<and> isDir it = isDirectory s \<and> href it = join urlPath (name it)
               \<and> size_text it = (if isDirectory s then ''-'' else formatBytes rt (size_bytes s))
               \<and> modified it = mtime s"
    by simp
  have h: "handler rt fs rootDir url =
             ([Stat ?D, ExistsSync (join ?D ''index.html''), ReaddirSync ?D]
              @ map (\<lambda>f. StatSync (join ?D f)) files,
              Inr \<lparr> status = 200, contentType = ''text/html'',
                    body = renderPage urlPath ?D (parentOf urlPath)
                             (renderRows rt ?items) \<rparr>)"
    using assms(1-6) si
    by (simp add: handler_accepted Let_def generateDirectoryListing_def)
  show ?thesis
    apply (rule exI [of _ ?items])
    apply (intro conjI)
        apply (rule si)
       apply (simp only: h renderPage_def renderRows_text parentOf_text)
      apply (rule c1)
     apply (rule c2)
    apply (rule c3)
    done
qed

theorem listing_sorted_witness:
  \<open>handler exampleRuntime exampleFs ''/srv/www'' ''/pics'' =
     ([Stat ''/srv/www/pics'', ExistsSync ''/srv/www/pics/index.html'',
       ReaddirSync ''/srv/www/pics'', StatSync ''/srv/www/pics/banana.txt'',
       StatSync ''/srv/www/pics/cherry'', StatSync ''/srv/www/pics/Apple'',
       StatSync ''/srv/www/pics/apple.txt''],
      Inr \<lparr> status = 200, contentType = ''text/html'',
            body =
                pageStart @ ''/pics'' @ pageTitleEnd @ ''/pics'' @ pageHeadingEnd
                @ ''/srv/www/pics'' @ pagePathEnd
                @ ''<tr><td><a href="/">'' @ [CHR 0xF0, CHR 0x9F, CHR 0x93, CHR 0x81]
                @ '' ..</a></td><td>-</td><td>-</td></tr>''
                @ pageBetween
                @ ''\<newline>    <tr>\<newline>''
                @ ''      <td><a href="/pics/Apple">'' @ [CHR 0xF0, CHR 0x9F, CHR 0x93, CHR 0x81]
                @ '' Apple/</a></td>\<newline>''
                @ ''      <td>-</td>\<newline>''
                @ ''      <td>1/1/1970, 12:00:00 AM</td>\<newline>''
                @ ''    </tr>\<newline>  ''
                @ ''\<newline>    <tr>\<newline>''
                @ ''      <td><a href="/pics/cherry">'' @ [CHR 0xF0, CHR 0x9F, CHR 0x93, CHR 0x81]
                @ '' cherry/</a></td>\<newline>''
                @ ''      <td>-</td>\<newline>''
                @ ''      <td>1/1/1970, 12:00:00 AM</td>\<newline>''
                @ ''    </tr>\<newline>  ''
                @ ''\<newline>    <tr>\<newline>''
                @ ''      <td><a href="/pics/apple.txt">'' @ [CHR 0xF0, CHR 0x9F, CHR 0x93, CHR 0x84]
                @ '' apple.txt</a></td>\<newline>''
                @ ''      <td>5 B</td>\<newline>''
                @ ''      <td>1/1/1970, 12:00:00 AM</td>\<newline>''
                @ ''    </tr>\<newline>  ''
                @ ''\<newline>    <tr>\<newline>''
                @ ''      <td><a href="/pics/banana.txt">'' @ [CHR 0xF0, CHR 0x9F, CHR 0x93, CHR 0x84]
                @ '' banana.txt</a></td>\<newline>''
                @ ''      <td>5 B</td>\<newline>''
                @ ''      <td>1/1/1970, 12:00:00 AM</td>\<newline>''
                @ ''    </tr>\<newline>  ''
                @ pageEnd \<rparr>)\<close>
proof -
  have c: "\<forall>f\<in>set [''banana.txt'', ''cherry'', ''Apple'', ''apple.txt''].
             \<exists>s. statSync exampleFs (join (join ''/srv/www'' ''/pics'') f) = Inr s"
    by (simp add: example_facts)
  have t1: "\<forall>a b. localeCompare exampleRuntime a b \<le> 0 \<or> localeCompare exampleRuntime b a \<le> 0"
    by (simp add: example_runtime_compare compareBytes_total)
  have t2: "\<forall>a b c. localeCompare exampleRuntime a b \<le> 0 \<and> localeCompare exampleRuntime b c \<le> 0
             \<longrightarrow> localeCompare exampleRuntime a c \<le> 0"
    using compareBytes_trans by (auto simp: example_runtime_compare)
  have s: "stat exampleFs (join ''/srv/www'' ''/pics'') = Inr dirStats"
    by (simp add: example_facts)
  have e: "\<not> existsSync exampleFs (join (join ''/srv/www'' ''/pics'') ''index.html'')"
    by (simp add: example_facts)
  have r: "readdirSync exampleFs (join ''/srv/www'' ''/pics'')
             = Inr [''banana.txt'', ''cherry'', ''Apple'', ''apple.txt'']"
    by (simp add: example_facts)
  have n: "CHR 0x00 \<notin> set (join ''/srv/www'' ''/pics'')"
    by (simp add: example_facts)
  have d: "dirname ''/pics'' = ''/''"
    by code_simp
  have l: "toLocaleString exampleRuntime 0 = ''1/1/1970, 12:00:00 AM''"
    by (simp add: exampleRuntime_def)
  from listing_sorted [OF example_facts(1) example_facts(2) n s example_facts(6) e r c t1 t2]
  obtain items where
    "sortedItems exampleRuntime exampleFs (join ''/srv/www'' ''/pics'') ''/pics'' =
       (ReaddirSync (join ''/srv/www'' ''/pics'')
        # map (\<lambda>f. StatSync (join (join ''/srv/www'' ''/pics'') f))
            [''banana.txt'', ''cherry'', ''Apple'', ''apple.txt''],
        Inr items)"
    and h: \<open>handler exampleRuntime exampleFs ''/srv/www'' ''/pics'' =
             ([Stat (join ''/srv/www'' ''/pics''),
               ExistsSync (join (join ''/srv/www'' ''/pics'') ''index.html''),
               ReaddirSync (join ''/srv/www'' ''/pics'')]
              @ map (\<lambda>f. StatSync (join (join ''/srv/www'' ''/pics'') f))
                  [''banana.txt'', ''cherry'', ''Apple'', ''apple.txt''],
              Inr \<lparr> status = 200, contentType = ''text/html'',
                    body =
                      pageStart @ ''/pics'' @ pageTitleEnd @ ''/pics'' @ pageHeadingEnd
                @ join ''/srv/www'' ''/pics'' @ pagePathEnd
                @ (if ''/pics'' = ''/'' then []
                 else ''<tr><td><a href="'' @ dirname ''/pics'' @ ''">''
                      @ [CHR 0xF0, CHR 0x9F, CHR 0x93, CHR 0x81]
                      @ '' ..</a></td><td>-</td><td>-</td></tr>'')
                @ pageBetween
                @ concat (map (\<lambda>it. ''\<newline>''
                       @ ''    <tr>\<newline>''
                       @ ''      <td><a href="'' @ href it @ ''">''
                       @ (if isDir it then [CHR 0xF0, CHR 0x9F, CHR 0x93, CHR 0x81]
                          else [CHR 0xF0, CHR 0x9F, CHR 0x93, CHR 0x84])
                       @ '' '' @ name it @ (if isDir it then ''/'' else [])
                       @ ''</a></td>\<newline>''
                       @ ''      <td>'' @ size_text it @ ''</td>\<newline>''
                       @ ''      <td>'' @ toLocaleString exampleRuntime (modified it) @ ''</td>\<newline>''
                       @ ''    </tr>\<newline>''
                       @ ''  '') items)
                @ pageEnd \<rparr>)\<close>
    by (elim exE conjE)
  then have "items =
      [\<lparr> name = ''Apple'', href = ''/pics/Apple'', isDir = True,
              size_text = ''-'', modified = 0 \<rparr>,
           \<lparr> name = ''cherry'', href = ''/pics/cherry'', isDir = True,
              size_text = ''-'', modified = 0 \<rparr>,
           \<lparr> name = ''apple.txt'', href = ''/pics/apple.txt'', isDir = False,
              size_text = ''5 B'', modified = 0 \<rparr>,
           \<lparr> name = ''banana.txt'', href = ''/pics/banana.txt'', isDir = False,
              size_text = ''5 B'', modified = 0 \<rparr>]"
    by (simp add: example_facts(3) example_pics_items)
  with h show ?thesis
    by (simp add: example_facts(3,7) example_child_paths d l)
qed

text \<open>
  Claim C8. The page of a listing is written out below. For the request path
  \<^verbatim>\<open>/\<close> the table body holds the rows of the items only; for every other
  request path it starts with one row for \<^verbatim>\<open>..\<close>, before the rows of the items,
  whose link is \<^verbatim>\<open>path.dirname\<close> of the request path. The items are named after
  the entries that \<^verbatim>\<open>readdirSync\<close> returned. The link is the request path up to
  the slash before its last name, slashes at the end of the path set aside; it is
  \<^verbatim>\<open>/\<close> when the path has one name only.
\<close>

theorem listing_parent_row:
  assumes "generateDirectoryListing rt fs dirPath urlPath = (calls, Inr html)"
  shows \<open>(\<exists>files items.
            readdirSync fs dirPath = Inr files
            \<and> sortedItems rt fs dirPath urlPath = (calls, Inr items)
            \<and> mset (map name items) = mset files
            \<and> html =
                pageStart @ urlPath @ pageTitleEnd @ urlPath @ pageHeadingEnd
                @ dirPath @ pagePathEnd
                @ (if urlPath = ''/'' then []
                         else ''<tr><td><a href="'' @ dirname urlPath @ ''">''
                              @ [CHR 0xF0, CHR 0x9F, CHR 0x93, CHR 0x81]
                              @ '' ..</a></td><td>-</td><td>-</td></tr>'')
                @ pageBetween
                @ concat (map (\<lambda>it. ''\<newline>''
                       @ ''    <tr>\<newline>''
                       @ ''      <td><a href="'' @ href it @ ''">''
                       @ (if isDir it then [CHR 0xF0, CHR 0x9F, CHR 0x93, CHR 0x81]
                          else [CHR 0xF0, CHR 0x9F, CHR 0x93, CHR 0x84])
                       @ '' '' @ name it @ (if isDir it then ''/'' else [])
                       @ ''</a></td>\<newline>''
                       @ ''      <td>'' @ size_text it @ ''</td>\<newline>''
                       @ ''      <td>'' @ toLocaleString rt (modified it) @ ''</td>\<newline>''
                       @ ''    </tr>\<newline>''
                       @ ''  '') items)
                @ pageEnd)
         \<and> (urlPath = c # a @ ''/'' @ n @ replicate k CHR ''/''
               \<and> n \<noteq> [] \<and> CHR ''/'' \<notin> set n
             \<longrightarrow> dirname urlPath = (if c = CHR ''/'' \<and> a = [] then ''//'' else c # a))
         \<and> (urlPath = c # n @ replicate k CHR ''/'' \<and> CHR ''/'' \<notin> set n
             \<longrightarrow> dirname urlPath = (if c = CHR ''/'' then ''/'' else ''.''))\<close>
proof (intro conjI impI)
  from assms obtain items where si: "sortedItems rt fs dirPath urlPath = (calls, Inr items)"
    and h: "html = renderPage urlPath dirPath (parentOf urlPath) (renderRows rt items)"
    by (auto simp: generateDirectoryListing_def split: prod.splits sum.splits)
  from si obtain files where rd: "readdirSync fs dirPath = Inr files"
    by (cases "readdirSync fs dirPath") (auto simp: sortedItems_def)
  with si obtain calls0 items0 where
    m: "mapFiles rt fs dirPath urlPath files = (calls0, Inr items0)"
    and it: "items = sortWith (compareItems rt) items0"
    by (auto simp: sortedItems_def split: prod.splits sum.splits)
  from mapFiles_fields [OF m] have "map name items0 = files" by simp
  moreover have "mset (map name items) = mset (map name items0)"
    unfolding it using sortWith_mset [of "compareItems rt" items0] by (metis mset_map)
  ultimately have ms: "mset (map name items) = mset files" by simp
  show \<open>\<exists>files items.
            readdirSync fs dirPath = Inr files
            \<and> sortedItems rt fs dirPath urlPath = (calls, Inr items)
            \<and> mset (map name items) = mset files
            \<and> html =
                pageStart @ urlPath @ pageTitleEnd @ urlPath @ pageHeadingEnd
                @ dirPath @ pagePathEnd
                @ (if urlPath = ''/'' then []
                         else ''<tr><td><a href="'' @ dirname urlPath @ ''">''
                              @ [CHR 0xF0, CHR 0x9F, CHR 0x93, CHR 0x81]
                              @ '' ..</a></td><td>-</td><td>-</td></tr>'')
                @ pageBetween
                @ concat (map (\<lambda>it. ''\<newline>''
                       @ ''    <tr>\<newline>''
                       @ ''      <td><a href="'' @ href it @ ''">''
                       @ (if isDir it then [CHR 0xF0, CHR 0x9F, CHR 0x93, CHR 0x81]
                          else [CHR 0xF0, CHR 0x9F, CHR 0x93, CHR 0x84])
                       @ '' '' @ name it @ (if isDir it then ''/'' else [])
                       @ ''</a></td>\<newline>''
                       @ ''      <td>'' @ size_text it @ ''</td>\<newline>''
                       @ ''      <td>'' @ toLocaleString rt (modified it) @ ''</td>\<newline>''
                       @ ''    </tr>\<newline>''
                       @ ''  '') items)
                @ pageEnd\<close>
    apply (rule exI [of _ files])
    apply (rule exI [of _ items])
    apply (intro conjI)
       apply (rule rd)
      apply (rule si)
     apply (rule ms)
    apply (simp only: h renderPage_def renderRows_text parentOf_text)
    done
next
  assume "urlPath = c # a @ ''/'' @ n @ replicate k CHR ''/''
            \<and> n \<noteq> [] \<and> CHR ''/'' \<notin> set n"
  then show "dirname urlPath = (if c = CHR ''/'' \<and> a = [] then ''//'' else c # a)"
    using dirname_last_name [of n c a k] by simp
next
  assume "urlPath = c # n @ replicate k CHR ''/'' \<and> CHR ''/'' \<notin> set n"
  then show "dirname urlPath = (if c = CHR ''/'' then ''/'' else ''.'')"
    using dirname_single_name [of n c k] by simp
qed

theorem listing_parent_row_witness:
  \<open>generateDirectoryListing exampleRuntime exampleFs ''/srv/www/'' ''/'' =
      ([ReaddirSync ''/srv/www/'', StatSync ''/srv/www/notes.TXT'', StatSync ''/srv/www/docs'',
        StatSync ''/srv/www/broken'', StatSync ''/srv/www/pics''],
       Inr (pageStart @ ''/'' @ pageTitleEnd @ ''/'' @ pageHeadingEnd
             @ ''/srv/www/'' @ pagePathEnd
             @ pageBetween
             @ ''\<newline>    <tr>\<newline>''
             @ ''      <td><a href="/broken">'' @ [CHR 0xF0, CHR 0x9F, CHR 0x93, CHR 0x81]
             @ '' broken/</a></td>\<newline>''
             @ ''      <td>-</td>\<newline>''
             @ ''      <td>1/1/1970, 12:00:00 AM</td>\<newline>''
             @ ''    </tr>\<newline>  ''
             @ ''\<newline>    <tr>\<newline>''
             @ ''      <td><a href="/docs">'' @ [CHR 0xF0, CHR 0x9F, CHR 0x93, CHR 0x81]
             @ '' docs/</a></td>\<newline>''
             @ ''      <td>-</td>\<newline>''
             @ ''      <td>1/1/1970, 12:00:00 AM</td>\<newline>''
             @ ''    </tr>\<newline>  ''
             @ ''\<newline>    <tr>\<newline>''
             @ ''      <td><a href="/pics">'' @ [CHR 0xF0, CHR 0x9F, CHR 0x93, CHR 0x81]
             @ '' pics/</a></td>\<newline>''
             @ ''      <td>-</td>\<newline>''
             @ ''      <td>1/1/1970, 12:00:00 AM</td>\<newline>''
             @ ''    </tr>\<newline>  ''
             @ ''\<newline>    <tr>\<newline>''
             @ ''      <td><a href="/notes.TXT">'' @ [CHR 0xF0, CHR 0x9F, CHR 0x93, CHR 0x84]
             @ '' notes.TXT</a></td>\<newline>''
             @ ''      <td>5 B</td>\<newline>''
             @ ''      <td>1/1/1970, 12:00:00 AM</td>\<newline>''
             @ ''    </tr>\<newline>  ''
             @ pageEnd))
   \<and> generateDirectoryListing exampleRuntime exampleFs ''/srv/www/pics/Apple'' ''/pics/Apple'' =
      ([ReaddirSync ''/srv/www/pics/Apple''],
       Inr (pageStart @ ''/pics/Apple'' @ pageTitleEnd @ ''/pics/Apple'' @ pageHeadingEnd
             @ ''/srv/www/pics/Apple'' @ pagePathEnd
             @ ''<tr><td><a href="/pics">'' @ [CHR 0xF0, CHR 0x9F, CHR 0x93, CHR 0x81]
             @ '' ..</a></td><td>-</td><td>-</td></tr>''
             @ pageBetween
             @ pageEnd))
   \<and> generateDirectoryListing exampleRuntime exampleFs ''/srv/www/pics/Apple/'' ''/pics/Apple/'' =
      ([ReaddirSync ''/srv/www/pics/Apple/''],
       Inr (pageStart @ ''/pics/Apple/'' @ pageTitleEnd @ ''/pics/Apple/'' @ pageHeadingEnd
             @ ''/srv/www/pics/Apple/'' @ pagePathEnd
             @ ''<tr><td><a href="/pics">'' @ [CHR 0xF0, CHR 0x9F, CHR 0x93, CHR 0x81]
             @ '' ..</a></td><td>-</td><td>-</td></tr>''
             @ pageBetween
             @ pageEnd))\<close>
proof -
  have l: "toLocaleString exampleRuntime 0 = ''1/1/1970, 12:00:00 AM''"
    by (simp add: exampleRuntime_def)
  have g0: "generateDirectoryListing exampleRuntime exampleFs ''/srv/www/'' ''/'' =
      ([ReaddirSync ''/srv/www/'', StatSync ''/srv/www/notes.TXT'', StatSync ''/srv/www/docs'',
        StatSync ''/srv/www/broken'', StatSync ''/srv/www/pics''],
       Inr (renderPage ''/'' ''/srv/www/'' (parentOf ''/'')
              (renderRows exampleRuntime [\<lparr> name = ''broken'', href = ''/broken'', isDir = True,
              size_text = ''-'', modified = 0 \<rparr>,
           \<lparr> name = ''docs'', href = ''/docs'', isDir = True,
              size_text = ''-'', modified = 0 \<rparr>,
           \<lparr> name = ''pics'', href = ''/pics'', isDir = True,
              size_text = ''-'', modified = 0 \<rparr>,
           \<lparr> name = ''notes.TXT'', href = ''/notes.TXT'', isDir = False,
              size_text = ''5 B'', modified = 0 \<rparr>])))"
    by (simp add: generateDirectoryListing_def example_root_items)
  from listing_parent_row [OF g0, of "CHR ''/''" "[]" "[]" 0]
  obtain files0 items0 where
    "sortedItems exampleRuntime exampleFs ''/srv/www/'' ''/'' = ([ReaddirSync ''/srv/www/'', StatSync ''/srv/www/notes.TXT'', StatSync ''/srv/www/docs'',
        StatSync ''/srv/www/broken'', StatSync ''/srv/www/pics''], Inr items0)"
    and h0: \<open>renderPage ''/'' ''/srv/www/'' (parentOf ''/'')
              (renderRows exampleRuntime [\<lparr> name = ''broken'', href = ''/broken'', isDir = True,
              size_text = ''-'', modified = 0 \<rparr>,
           \<lparr> name = ''docs'', href = ''/docs'', isDir = True,
              size_text = ''-'', modified = 0 \<rparr>,
           \<lparr> name = ''pics'', href = ''/pics'', isDir = True,
              size_text = ''-'', modified = 0 \<rparr>,
           \<lparr> name = ''notes.TXT'', href = ''/notes.TXT'', isDir = False,
              size_text = ''5 B'', modified = 0 \<rparr>]) =
             pageStart @ ''/'' @ pageTitleEnd @ ''/'' @ pageHeadingEnd
             @ ''/srv/www/'' @ pagePathEnd
             @ (if ''/'' = ''/'' then []
                 else ''<tr><td><a href="'' @ dirname ''/'' @ ''">''
                      @ [CHR 0xF0, CHR 0x9F, CHR 0x93, CHR 0x81]
                      @ '' ..</a></td><td>-</td><td>-</td></tr>'')
             @ pageBetween
             @ concat (map (\<lambda>it. ''\<newline>''
                       @ ''    <tr>\<newline>''
                       @ ''      <td><a href="'' @ href it @ ''">''
                       @ (if isDir it then [CHR 0xF0, CHR 0x9F, CHR 0x93, CHR 0x81]
                          else [CHR 0xF0, CHR 0x9F, CHR 0x93, CHR 0x84])
                       @ '' '' @ name it @ (if isDir it then ''/'' else [])
                       @ ''</a></td>\<newline>''
                       @ ''      <td>'' @ size_text it @ ''</td>\<newline>''
                       @ ''      <td>'' @ toLocaleString exampleRuntime (modified it) @ ''</td>\<newline>''
                       @ ''    </tr>\<newline>''
                       @ ''  '') items0)
             @ pageEnd\<close>
    by (elim conjE exE)
  then have "items0 = [\<lparr> name = ''broken'', href = ''/broken'', isDir = True,
              size_text = ''-'', modified = 0 \<rparr>,
           \<lparr> name = ''docs'', href = ''/docs'', isDir = True,
              size_text = ''-'', modified = 0 \<rparr>,
           \<lparr> name = ''pics'', href = ''/pics'', isDir = True,
              size_text = ''-'', modified = 0 \<rparr>,
           \<lparr> name = ''notes.TXT'', href = ''/notes.TXT'', isDir = False,
              size_text = ''5 B'', modified = 0 \<rparr>]"
    by (simp add: example_root_items)
  with h0 g0 have r0: \<open>generateDirectoryListing exampleRuntime exampleFs ''/srv/www/'' ''/'' =
      ([ReaddirSync ''/srv/www/'', StatSync ''/srv/www/notes.TXT'', StatSync ''/srv/www/docs'',
        StatSync ''/srv/www/broken'', StatSync ''/srv/www/pics''],
       Inr (pageStart @ ''/'' @ pageTitleEnd @ ''/'' @ pageHeadingEnd
             @ ''/srv/www/'' @ pagePathEnd
             @ pageBetween
             @ ''\<newline>    <tr>\<newline>''
             @ ''      <td><a href="/broken">'' @ [CHR 0xF0, CHR 0x9F, CHR 0x93, CHR 0x81]
             @ '' broken/</a></td>\<newline>''
             @ ''      <td>-</td>\<newline>''
             @ ''      <td>1/1/1970, 12:00:00 AM</td>\<newline>''
             @ ''    </tr>\<newline>  ''
             @ ''\<newline>    <tr>\<newline>''
             @ ''      <td><a href="/docs">'' @ [CHR 0xF0, CHR 0x9F, CHR 0x93, CHR 0x81]
             @ '' docs/</a></td>\<newline>''
             @ ''      <td>-</td>\<newline>''
             @ ''      <td>1/1/1970, 12:00:00 AM</td>\<newline>''
             @ ''    </tr>\<newline>  ''
             @ ''\<newline>    <tr>\<newline>''
             @ ''      <td><a href="/pics">'' @ [CHR 0xF0, CHR 0x9F, CHR 0x93, CHR 0x81]
             @ '' pics/</a></td>\<newline>''
             @ ''      <td>-</td>\<newline>''
             @ ''      <td>1/1/1970, 12:00:00 AM</td>\<newline>''
             @ ''    </tr>\<newline>  ''
             @ ''\<newline>    <tr>\<newline>''
             @ ''      <td><a href="/notes.TXT">'' @ [CHR 0xF0, CHR 0x9F, CHR 0x93, CHR 0x84]
             @ '' notes.TXT</a></td>\<newline>''
             @ ''      <td>5 B</td>\<newline>''
             @ ''      <td>1/1/1970, 12:00:00 AM</td>\<newline>''
             @ ''    </tr>\<newline>  ''
             @ pageEnd))\<close>
    by (simp add: l)
  have g1: "generateDirectoryListing exampleRuntime exampleFs ''/srv/www/pics/Apple'' ''/pics/Apple'' =
      ([ReaddirSync ''/srv/www/pics/Apple''],
       Inr (renderPage ''/pics/Apple'' ''/srv/www/pics/Apple'' (parentOf ''/pics/Apple'')
              (renderRows exampleRuntime [])))"
    by (simp add: generateDirectoryListing_def example_apple_items)
  have d1: "dirname ''/pics/Apple'' = ''/pics''"
    using listing_parent_row [OF g1, of "CHR ''/''" "''pics''" "''Apple''" "0"]
    by simp
  from listing_parent_row [OF g1, of "CHR ''/''" "''pics''" "''Apple''" 0]
  obtain files1 items1 where
    "sortedItems exampleRuntime exampleFs ''/srv/www/pics/Apple'' ''/pics/Apple'' = ([ReaddirSync ''/srv/www/pics/Apple''], Inr items1)"
    and h1: \<open>renderPage ''/pics/Apple'' ''/srv/www/pics/Apple'' (parentOf ''/pics/Apple'')
              (renderRows exampleRuntime []) =
             pageStart @ ''/pics/Apple'' @ pageTitleEnd @ ''/pics/Apple'' @ pageHeadingEnd
             @ ''/srv/www/pics/Apple'' @ pagePathEnd
             @ (if ''/pics/Apple'' = ''/'' then []
                 else ''<tr><td><a href="'' @ dirname ''/pics/Apple'' @ ''">''
                      @ [CHR 0xF0, CHR 0x9F, CHR 0x93, CHR 0x81]
                      @ '' ..</a></td><td>-</td><td>-</td></tr>'')
             @ pageBetween
             @ concat (map (\<lambda>it. ''\<newline>''
                       @ ''    <tr>\<newline>''
                       @ ''      <td><a href="'' @ href it @ ''">''
                       @ (if isDir it then [CHR 0xF0, CHR 0x9F, CHR 0x93, CHR 0x81]
                          else [CHR 0xF0, CHR 0x9F, CHR 0x93, CHR 0x84])
                       @ '' '' @ name it @ (if isDir it then ''/'' else [])
                       @ ''</a></td>\<newline>''
                       @ ''      <td>'' @ size_text it @ ''</td>\<newline>''
                       @ ''      <td>'' @ toLocaleString exampleRuntime (modified it) @ ''</td>\<newline>''
                       @ ''    </tr>\<newline>''
                       @ ''  '') items1)
             @ pageEnd\<close>
    by (elim conjE exE)
  then have "items1 = []"
    by (simp add: example_apple_items)
  with h1 g1 have r1: \<open>generateDirectoryListing exampleRuntime exampleFs ''/srv/www/pics/Apple'' ''/pics/Apple'' =
      ([ReaddirSync ''/srv/www/pics/Apple''],
       Inr (pageStart @ ''/pics/Apple'' @ pageTitleEnd @ ''/pics/Apple'' @ pageHeadingEnd
             @ ''/srv/www/pics/Apple'' @ pagePathEnd
             @ ''<tr><td><a href="/pics">'' @ [CHR 0xF0, CHR 0x9F, CHR 0x93, CHR 0x81]
             @ '' ..</a></td><td>-</td><td>-</td></tr>''
             @ pageBetween
             @ pageEnd))\<close>
    by (simp add: l d1)
  have g2: "generateDirectoryListing exampleRuntime exampleFs ''/srv/www/pics/Apple/'' ''/pics/Apple/'' =
      ([ReaddirSync ''/srv/www/pics/Apple/''],
       Inr (renderPage ''/pics/Apple/'' ''/srv/www/pics/Apple/'' (parentOf ''/pics/Apple/'')
              (renderRows exampleRuntime [])))"
    by (simp add: generateDirectoryListing_def example_apple_slash_items)
  have d2: "dirname ''/pics/Apple/'' = ''/pics''"
    using listing_parent_row [OF g2, of "CHR ''/''" "''pics''" "''Apple''" "Suc 0"]
    by simp
  from listing_parent_row [OF g2, of "CHR ''/''" "''pics''" "''Apple''" "Suc 0"]
  obtain files2 items2 where
    "sortedItems exampleRuntime exampleFs ''/srv/www/pics/Apple/'' ''/pics/Apple/'' = ([ReaddirSync ''/srv/www/pics/Apple/''], Inr items2)"
    and h2: \<open>renderPage ''/pics/Apple/'' ''/srv/www/pics/Apple/'' (parentOf ''/pics/Apple/'')
              (renderRows exampleRuntime []) =
             pageStart @ ''/pics/Apple/'' @ pageTitleEnd @ ''/pics/Apple/'' @ pageHeadingEnd
             @ ''/srv/www/pics/Apple/'' @ pagePathEnd
             @ (if ''/pics/Apple/'' = ''/'' then []
                 else ''<tr><td><a href="'' @ dirname ''/pics/Apple/'' @ ''">''
                      @ [CHR 0xF0, CHR 0x9F, CHR 0x93, CHR 0x81]
                      @ '' ..</a></td><td>-</td><td>-</td></tr>'')
             @ pageBetween
             @ concat (map (\<lambda>it. ''\<newline>''
                       @ ''    <tr>\<newline>''
                       @ ''      <td><a href="'' @ href it @ ''">''
                       @ (if isDir it then [CHR 0xF0, CHR 0x9F, CHR 0x93, CHR 0x81]
                          else [CHR 0xF0, CHR 0x9F, CHR 0x93, CHR 0x84])
                       @ '' '' @ name it @ (if isDir it then ''/'' else [])
                       @ ''</a></td>\<newline>''
                       @ ''      <td>'' @ size_text it @ ''</td>\<newline>''
                       @ ''      <td>'' @ toLocaleString exampleRuntime (modified it) @ ''</td>\<newline>''
                       @ ''    </tr>\<newline>''
                       @ ''  '') items2)
             @ pageEnd\<close>
    by (elim conjE exE)
  then have "items2 = []"
    by (simp add: example_apple_slash_items)
  with h2 g2 have r2: \<open>generateDirectoryListing exampleRuntime exampleFs ''/srv/www/pics/Apple/'' ''/pics/Apple/'' =
      ([ReaddirSync ''/srv/www/pics/Apple/''],
       Inr (pageStart @ ''/pics/Apple/'' @ pageTitleEnd @ ''/pics/Apple/'' @ pageHeadingEnd
             @ ''/srv/www/pics/Apple/'' @ pagePathEnd
             @ ''<tr><td><a href="/pics">'' @ [CHR 0xF0, CHR 0x9F, CHR 0x93, CHR 0x81]
             @ '' ..</a></td><td>-</td><td>-</td></tr>''
             @ pageBetween
             @ pageEnd))\<close>
    by (simp add: l d2)
  from r0 r1 r2 show ?thesis by (intro conjI)
qed



text \<open>
  Claim C10. A request whose decoded path contains the two characters \<^verbatim>\<open>..\<close>
  anywhere, also inside a name such as \<^verbatim>\<open>notes..txt\<close>, is answered with 403
  and no call of the file system, for every file system: an entry with such a
  name is never served.
\<close>

theorem dotdot_substring_rejected:
  assumes "decodeURIComponent (first (split url CHR ''?'')) = Inr urlPath"
      and "urlPath = pre @ ''..'' @ post"
  shows "handler rt fs rootDir url =
           ([], Inr \<lparr> status = 403, contentType = ''text/plain'', body = ''403 Forbidden'' \<rparr>)"
proof -
  from assms(2) have "includes_str urlPath ''..''"
    using includes_str_iff by blast
  with assms(1) show ?thesis by (rule handler_rejects)
qed

theorem dotdot_substring_rejected_witness:
  "decodeURIComponent (first (split ''/notes..txt'' CHR ''?'')) = Inr ''/notes..txt''
   \<and> handler exampleRuntime exampleFs ''/srv/www'' ''/notes..txt'' =
       ([], Inr \<lparr> status = 403, contentType = ''text/plain'', body = ''403 Forbidden'' \<rparr>)"
proof -
  have d: "decodeURIComponent (first (split ''/notes..txt'' CHR ''?'')) = Inr ''/notes..txt''"
    by code_simp
  have s: "''/notes..txt'' = ''/notes'' @ ''..'' @ ''txt''"
    by simp
  from d dotdot_substring_rejected [OF d s, of exampleRuntime exampleFs "''/srv/www''"] show ?thesis by simp
qed

end
